theory Spec2Isabelle
  imports Main "HOL-Library.FSet" "HOL-Library.Char_ord" "HOL-Library.List_Lexorder"
begin

section \<open>Castle Escape: data model\<close>

text \<open>
  The repository holds two programs over the same game: \<^verbatim>\<open>app.py\<close>, a console game
  driven by \<^verbatim>\<open>game_loop\<close>, and \<^verbatim>\<open>main.py\<close>, a web version whose \<^verbatim>\<open>Player\<close>
  has one more attribute, \<^verbatim>\<open>turns\<close>, and can be saved and loaded. The handlers both
  files share are modelled once, over the extensible record \<open>player\<close>; where the
  files differ, the console variant carries the suffix \<open>_cli\<close>.

  Printing is modelled by the list of messages a handler emits, one constructor of
  \<open>msg\<close> per print statement that tells a branch apart. Pure decoration (banners,
  the list of exits, the list of available items) is left out, and so is the call
  \<^verbatim>\<open>save_game_state\<close> of the web version, which writes to the database and changes
  neither the player nor the rooms.
\<close>

datatype py_error = KeyError | AttributeError

datatype direction = North | South | East | West

text \<open>
  A room is a dictionary. Its keys \<^verbatim>\<open>north\<close>, \<^verbatim>\<open>south\<close>, \<^verbatim>\<open>east\<close>, \<^verbatim>\<open>west\<close> are
  the map \<open>exits\<close>; \<^verbatim>\<open>locked\<close> and \<^verbatim>\<open>dark\<close> are only ever read through
  \<^verbatim>\<open>room.get(key, False)\<close>, so an absent key is the value \<open>False\<close>.
  The description and the image are presentation only.
\<close>

record room =
  exits :: "direction \<rightharpoonup> string"
  items :: "string list"
  locked :: bool
  dark :: bool

type_synonym rooms = "string \<rightharpoonup> room"

text \<open>
  \<^verbatim>\<open>Player\<close> of \<^verbatim>\<open>app.py\<close>. The attribute \<^verbatim>\<open>name\<close> is an option because
  \<^verbatim>\<open>Player.from_dict\<close> of \<^verbatim>\<open>main.py\<close> can leave it unset (see below).
\<close>

record player =
  name :: "string option"
  position :: string
  inventory :: "string list"
  health :: int
  visited_rooms :: "string fset"

text \<open>\<^verbatim>\<open>Player\<close> of \<^verbatim>\<open>main.py\<close>: the same attributes and \<^verbatim>\<open>turns\<close>.\<close>

record web_player = player +
  turns :: int

datatype msg =
    TooDark
  | LookCarefully
  | Flavor string
  | NothingOfInterest
  | NothingToPickUp
  | ArmoryDoorLocked
  | PickedUp string
  | BagFull
  | NoSuchItemHere string
  | UnlockArmory
  | ArmoryNeedsKey
  | MovedTo string
  | CannotGo
  | NoExits
  | BagEmpty
  | NotHeld string
  | TorchLit
  | AteHerb
  | SwingSword
  | CrowbarPassage
  | CrowbarNothing
  | CannotUse string
  | Ghost
  | GuardThanks
  | GuardHurt
  | NoOneHere
  | Victory int

section \<open>Player\<close>

text \<open>\<^verbatim>\<open>Player.__init__\<close> of \<^verbatim>\<open>app.py\<close>: every attribute is set, whatever the name.\<close>

definition Player_cli :: "string \<Rightarrow> player" where
  "Player_cli n =
     \<lparr>name = Some n, position = ''Entrance Hall'', inventory = [], health = 100,
      visited_rooms = {||}\<rparr>"

text \<open>
  \<^verbatim>\<open>Player.__init__\<close> of \<^verbatim>\<open>main.py\<close>: the attributes are set only \<^verbatim>\<open>if name:\<close>.
  For the empty string the object has no attribute at all, which is \<open>None\<close> here.
\<close>

definition Player_web :: "string \<Rightarrow> web_player option" where
  "Player_web n =
     (if n \<noteq> [] then
        Some \<lparr>name = Some n, position = ''Entrance Hall'', inventory = [], health = 100,
              visited_rooms = {|''Entrance Hall''|}, turns = 0\<rparr>
      else None)"

definition add_item :: "'a player_scheme \<Rightarrow> string \<Rightarrow> 'a player_scheme \<times> bool" where
  "add_item p item =
     (if length (inventory p) < 4 then (p\<lparr>inventory := inventory p @ [item]\<rparr>, True)
      else (p, False))"

text \<open>\<^verbatim>\<open>list.remove\<close> deletes the first occurrence, which is \<open>remove1\<close>.\<close>

definition remove_item :: "'a player_scheme \<Rightarrow> string \<Rightarrow> 'a player_scheme \<times> bool" where
  "remove_item p item =
     (if item \<in> set (inventory p) then (p\<lparr>inventory := remove1 item (inventory p)\<rparr>, True)
      else (p, False))"

definition has_item :: "'a player_scheme \<Rightarrow> string \<Rightarrow> bool" where
  "has_item p item = (item \<in> set (inventory p))"

section \<open>Win check\<close>

text \<open>
  \<^verbatim>\<open>check_win_condition\<close>: the boolean it returns, and the victory message with the
  score it reports (\<^verbatim>\<open>len(visited_rooms) * 10 + len(inventory) * 5\<close>) when it
  returns \<^verbatim>\<open>True\<close>.
\<close>

definition check_win_condition :: "'a player_scheme \<Rightarrow> bool \<times> msg list" where
  "check_win_condition p =
     (if position p = ''Throne Room'' \<and> has_item p ''Golden Crown'' then
        (True, [Victory (int (fcard (visited_rooms p)) * 10 + int (length (inventory p)) * 5)])
      else (False, []))"

section \<open>Using an item\<close>

text \<open>
  \<^verbatim>\<open>use_item\<close>. The item is the string read from the keyboard after \<^verbatim>\<open>.title()\<close>
  in \<^verbatim>\<open>app.py\<close>, the selected entry in \<^verbatim>\<open>main.py\<close>; the branches are the same in
  both files.
\<close>

definition use_item :: "'a player_scheme \<Rightarrow> string \<Rightarrow> 'a player_scheme \<times> msg list" where
  "use_item p item =
     (if inventory p = [] then (p, [BagEmpty])
      else if \<not> has_item p item then (p, [NotHeld item])
      else if item = ''Torch'' then (p, [TorchLit])
      else if item = ''Healing Herb'' then
        (fst (remove_item (p\<lparr>health := min 100 (health p + 30)\<rparr>) ''Healing Herb''), [AteHerb])
      else if item = ''Sword'' then (p, [SwingSword])
      else if item = ''Crowbar'' then
        (if position p = ''Study'' then (p, [CrowbarPassage]) else (p, [CrowbarNothing]))
      else (p, [CannotUse item]))"

section \<open>The world\<close>

text \<open>
  The dictionary \<^verbatim>\<open>rooms\<close> built by \<^verbatim>\<open>initialize_game\<close>: the same ten rooms,
  exits, items and flags in both files.
\<close>

definition initialize_game :: rooms where
  "initialize_game = map_of
     [(''Entrance Hall'',
         \<lparr>exits = [North \<mapsto> ''Courtyard'', East \<mapsto> ''Library''],
          items = [''Torch''], locked = False, dark = False\<rparr>),
      (''Courtyard'',
         \<lparr>exits = [South \<mapsto> ''Entrance Hall'', North \<mapsto> ''Guard Tower'',
                   East \<mapsto> ''Kitchen'', West \<mapsto> ''Armory''],
          items = [], locked = False, dark = False\<rparr>),
      (''Guard Tower'',
         \<lparr>exits = [South \<mapsto> ''Courtyard''],
          items = [''Crowbar''], locked = False, dark = False\<rparr>),
      (''Library'',
         \<lparr>exits = [West \<mapsto> ''Entrance Hall'', North \<mapsto> ''Study''],
          items = [''Rusty Key'', ''Old Book''], locked = False, dark = False\<rparr>),
      (''Kitchen'',
         \<lparr>exits = [West \<mapsto> ''Courtyard'', South \<mapsto> ''Dungeon''],
          items = [''Healing Herb''], locked = False, dark = False\<rparr>),
      (''Armory'',
         \<lparr>exits = [East \<mapsto> ''Courtyard''],
          items = [''Sword''], locked = True, dark = False\<rparr>),
      (''Study'',
         \<lparr>exits = [South \<mapsto> ''Library''],
          items = [''Note''], locked = False, dark = False\<rparr>),
      (''Dungeon'',
         \<lparr>exits = [North \<mapsto> ''Kitchen'', East \<mapsto> ''Secret Passage''],
          items = [], locked = False, dark = True\<rparr>),
      (''Secret Passage'',
         \<lparr>exits = [West \<mapsto> ''Dungeon'', North \<mapsto> ''Throne Room''],
          items = [], locked = False, dark = False\<rparr>),
      (''Throne Room'',
         \<lparr>exits = [South \<mapsto> ''Secret Passage''],
          items = [''Golden Crown''], locked = False, dark = False\<rparr>)]"

text \<open>
  \<^verbatim>\<open>initialize_game\<close> of \<^verbatim>\<open>app.py\<close> also creates the player, from the name typed
  in, and marks the starting room as visited.
\<close>

definition initialize_game_cli :: "string \<Rightarrow> player \<times> rooms" where
  "initialize_game_cli n =
     (let player = Player_cli n
      in (player\<lparr>visited_rooms := finsert (position player) (visited_rooms player)\<rparr>,
          initialize_game))"

section \<open>Action handlers\<close>

text \<open>
  Every handler starts with \<^verbatim>\<open>room = rooms[player.position]\<close>, which raises
  \<^verbatim>\<open>KeyError\<close> for a position that is no key. A handler returns the player and the
  rooms as it leaves them, the value the Python function returns where it returns
  one, and its messages.
\<close>

definition flavoured :: "string \<Rightarrow> bool" where
  "flavoured item \<longleftrightarrow>
     item \<in> set [''Torch'', ''Rusty Key'', ''Crowbar'', ''Healing Herb'', ''Golden Crown'',
                 ''Sword'', ''Note'', ''Old Book'']"

definition look_around ::
  "'a player_scheme \<Rightarrow> rooms \<Rightarrow> py_error + ('a player_scheme \<times> rooms \<times> msg list)" where
  "look_around p rooms =
     (case rooms (position p) of
        None \<Rightarrow> Inl KeyError
      | Some room \<Rightarrow>
          if position p = ''Dungeon'' \<and> dark room \<and> \<not> has_item p ''Torch'' then
            Inr (p, rooms, [TooDark])
          else if items room \<noteq> [] then
            Inr (p, rooms, LookCarefully # map Flavor (filter flavoured (items room)))
          else Inr (p, rooms, [LookCarefully, NothingOfInterest]))"

text \<open>
  \<^verbatim>\<open>pick_up_item\<close>. In \<^verbatim>\<open>main.py\<close> the item name is an argument and the function
  returns a boolean; in \<^verbatim>\<open>app.py\<close> the name is read (and passed through
  \<^verbatim>\<open>.title()\<close>) after the three checks, and nothing is returned. The checks, their
  order and the effects are the same.
\<close>

definition pick_up_item ::
  "'a player_scheme \<Rightarrow> rooms \<Rightarrow> string \<Rightarrow>
     py_error + ('a player_scheme \<times> rooms \<times> bool \<times> msg list)" where
  "pick_up_item p rooms item_name =
     (case rooms (position p) of
        None \<Rightarrow> Inl KeyError
      | Some room \<Rightarrow>
          if items room = [] then Inr (p, rooms, False, [NothingToPickUp])
          else if position p = ''Armory'' \<and> locked room then
            Inr (p, rooms, False, [ArmoryDoorLocked])
          else if position p = ''Dungeon'' \<and> dark room \<and> \<not> has_item p ''Torch'' then
            Inr (p, rooms, False, [TooDark])
          else if item_name \<in> set (items room) then
            (case add_item p item_name of
               (p', added) \<Rightarrow>
                 if added then
                   Inr (p', rooms(position p \<mapsto> room\<lparr>items := remove1 item_name (items room)\<rparr>),
                        True, [PickedUp item_name])
                 else Inr (p, rooms, False, [BagFull]))
          else Inr (p, rooms, False, [NoSuchItemHere item_name]))"

text \<open>
  \<^verbatim>\<open>move_player\<close> of \<^verbatim>\<open>main.py\<close>. Its only caller passes one of the four exit
  names, so the direction is a \<open>direction\<close>. The Armory gate either lets the move
  through (unlocking with the key, or because nothing is locked) or returns early.
\<close>

definition move_player ::
  "web_player \<Rightarrow> rooms \<Rightarrow> direction \<Rightarrow>
     py_error + (web_player \<times> rooms \<times> bool \<times> msg list)" where
  "move_player p rooms dir =
     (case rooms (position p) of
        None \<Rightarrow> Inl KeyError
      | Some room \<Rightarrow>
          (case exits room dir of
             None \<Rightarrow> Inr (p, rooms, False, [])
           | Some new_position \<Rightarrow>
               if new_position = ''Armory'' then
                 (case rooms ''Armory'' of
                    None \<Rightarrow> Inl KeyError
                  | Some armory \<Rightarrow>
                      if locked armory then
                        if has_item p ''Rusty Key'' then
                          (let rooms' = rooms(''Armory'' \<mapsto> armory\<lparr>locked := False\<rparr>);
                               p' = fst (remove_item p ''Rusty Key'')
                           in Inr (p'\<lparr>position := new_position,
                                      visited_rooms := finsert new_position (visited_rooms p'),
                                      turns := turns p' + 1\<rparr>,
                                   rooms', True, [UnlockArmory]))
                        else Inr (p, rooms, False, [ArmoryNeedsKey])
                      else
                        Inr (p\<lparr>position := new_position,
                                visited_rooms := finsert new_position (visited_rooms p),
                                turns := turns p + 1\<rparr>,
                             rooms, True, []))
               else
                 Inr (p\<lparr>position := new_position,
                         visited_rooms := finsert new_position (visited_rooms p),
                         turns := turns p + 1\<rparr>,
                      rooms, True, [])))"

text \<open>
  \<^verbatim>\<open>move_player\<close> of \<^verbatim>\<open>app.py\<close>. The direction is the line typed in, lower-cased;
  it is accepted when it is one of the four exit names and a key of the room. There is
  no turn counter on the player, and nothing is returned.
\<close>

definition parse_direction :: "string \<Rightarrow> direction option" where
  "parse_direction s =
     (if s = ''north'' then Some North
      else if s = ''south'' then Some South
      else if s = ''east'' then Some East
      else if s = ''west'' then Some West
      else None)"

definition exit_list :: "room \<Rightarrow> direction list" where
  "exit_list room = filter (\<lambda>d. exits room d \<noteq> None) [North, South, East, West]"

definition move_player_cli ::
  "'a player_scheme \<Rightarrow> rooms \<Rightarrow> string \<Rightarrow> py_error + ('a player_scheme \<times> rooms \<times> msg list)" where
  "move_player_cli p rooms typed =
     (case rooms (position p) of
        None \<Rightarrow> Inl KeyError
      | Some room \<Rightarrow>
          if exit_list room = [] then Inr (p, rooms, [NoExits])
          else
            (case parse_direction typed of
               None \<Rightarrow> Inr (p, rooms, [CannotGo])
             | Some dir \<Rightarrow>
                 (case exits room dir of
                    None \<Rightarrow> Inr (p, rooms, [CannotGo])
                  | Some new_position \<Rightarrow>
                      if new_position = ''Armory'' then
                        (case rooms ''Armory'' of
                           None \<Rightarrow> Inl KeyError
                         | Some armory \<Rightarrow>
                             if locked armory then
                               if has_item p ''Rusty Key'' then
                                 (let rooms' = rooms(''Armory'' \<mapsto> armory\<lparr>locked := False\<rparr>);
                                      p' = fst (remove_item p ''Rusty Key'')
                                  in Inr (p'\<lparr>position := new_position,
                                             visited_rooms :=
                                               finsert new_position (visited_rooms p')\<rparr>,
                                          rooms', [UnlockArmory, MovedTo new_position]))
                               else Inr (p, rooms, [ArmoryNeedsKey])
                             else
                               Inr (p\<lparr>position := new_position,
                                       visited_rooms := finsert new_position (visited_rooms p)\<rparr>,
                                    rooms, [MovedTo new_position]))
                      else
                        Inr (p\<lparr>position := new_position,
                                visited_rooms := finsert new_position (visited_rooms p)\<rparr>,
                             rooms, [MovedTo new_position]))))"

definition talk_to_character :: "'a player_scheme \<Rightarrow> 'a player_scheme \<times> msg list" where
  "talk_to_character p =
     (if position p = ''Courtyard'' then (p, [Ghost])
      else if position p = ''Guard Tower'' then
        (if has_item p ''Healing Herb'' then
           (fst (remove_item p ''Healing Herb''), [GuardThanks])
         else (p, [GuardHurt]))
      else (p, [NoOneHere]))"

section \<open>Saving and loading the player\<close>

text \<open>
  The dictionary \<^verbatim>\<open>to_dict\<close> builds and \<^verbatim>\<open>from_dict\<close> reads has six fixed keys.
  \<^verbatim>\<open>list(self.visited_rooms)\<close> lists a set in an order Python does not specify:
  \<open>to_dict\<close> takes the listing as its first argument. Reading \<^verbatim>\<open>self.name\<close> on a
  player without that attribute raises \<^verbatim>\<open>AttributeError\<close>.
\<close>

record player_dict =
  d_name :: string
  d_position :: string
  d_inventory :: "string list"
  d_health :: int
  d_visited_rooms :: "string list"
  d_turns :: int

definition to_dict :: "(string fset \<Rightarrow> string list) \<Rightarrow> web_player \<Rightarrow> py_error + player_dict" where
  "to_dict list_of p =
     (case name p of
        None \<Rightarrow> Inl AttributeError
      | Some n \<Rightarrow>
          Inr \<lparr>d_name = n, d_position = position p, d_inventory = inventory p,
               d_health = health p, d_visited_rooms = list_of (visited_rooms p),
               d_turns = turns p\<rparr>)"

text \<open>
  \<^verbatim>\<open>from_dict\<close> creates the player with \<^verbatim>\<open>cls(data['name'])\<close> and then assigns every
  attribute but the name. For an empty name the constructor sets nothing, so the
  result has no attribute \<^verbatim>\<open>name\<close>.
\<close>

definition from_dict :: "player_dict \<Rightarrow> web_player" where
  "from_dict data =
     (case Player_web (d_name data) of
        Some player \<Rightarrow>
          player\<lparr>position := d_position data, inventory := d_inventory data,
                 health := d_health data,
                 visited_rooms := fset_of_list (d_visited_rooms data),
                 turns := d_turns data\<rparr>
      | None \<Rightarrow>
          \<lparr>name = None, position = d_position data, inventory = d_inventory data,
           health = d_health data, visited_rooms = fset_of_list (d_visited_rooms data),
           turns = d_turns data\<rparr>)"

section \<open>Sequences of actions\<close>

text \<open>
  The web version has no loop of its own: each click either calls one handler on the
  player and the rooms of the session, or loads a saved player. \<open>perform\<close> is that
  click, and \<open>run\<close> a sequence of them, keeping for every action the value its
  handler returned (\<open>None\<close> where nothing is returned). An exception ends the run.

  \<open>Load data\<close> is a click on one of the Load buttons of \<^verbatim>\<open>main\<close>:
  \<^verbatim>\<open>load_game_state\<close> reads the dictionary saved under the chosen name, and the
  player of the session becomes \<^verbatim>\<open>Player.from_dict\<close> of it, while
  \<^verbatim>\<open>st.session_state.rooms\<close> stays as it is. The dictionary is what the database
  holds for that name, and the database outlives the session: it is any dictionary that
  \<^verbatim>\<open>save_game_state\<close> wrote earlier, in this session or in another one. A fresh
  session has the rooms of \<open>initialize_game\<close>.

  The page stops offering actions once the win check succeeds, and Quit Game and Start
  New Game end one game and begin another; the states of a game are among those
  \<open>run\<close> reaches.
\<close>

datatype action =
  Move direction | Look | Take string | Use string | Talk | Load player_dict

text \<open>The actions that call a handler of the game, as opposed to loading a save.\<close>

fun handler_action :: "action \<Rightarrow> bool" where
  "handler_action (Load _) = False"
| "handler_action _ = True"

type_synonym log = "(action \<times> bool option) list"

definition perform ::
  "action \<Rightarrow> web_player \<Rightarrow> rooms \<Rightarrow> py_error + (web_player \<times> rooms \<times> bool option)" where
  "perform a p rooms =
     (case a of
        Move dir \<Rightarrow>
          (case move_player p rooms dir of
             Inl e \<Rightarrow> Inl e
           | Inr (p', rooms', moved, _) \<Rightarrow> Inr (p', rooms', Some moved))
      | Look \<Rightarrow>
          (case look_around p rooms of
             Inl e \<Rightarrow> Inl e
           | Inr (p', rooms', _) \<Rightarrow> Inr (p', rooms', None))
      | Take item_name \<Rightarrow>
          (case pick_up_item p rooms item_name of
             Inl e \<Rightarrow> Inl e
           | Inr (p', rooms', taken, _) \<Rightarrow> Inr (p', rooms', Some taken))
      | Use item \<Rightarrow> Inr (fst (use_item p item), rooms, None)
      | Talk \<Rightarrow> Inr (fst (talk_to_character p), rooms, None)
      | Load data \<Rightarrow> Inr (from_dict data, rooms, None))"

fun run :: "web_player \<Rightarrow> rooms \<Rightarrow> action list \<Rightarrow> py_error + (web_player \<times> rooms \<times> log)" where
  "run p rooms [] = Inr (p, rooms, [])"
| "run p rooms (a # as) =
     (case perform a p rooms of
        Inl e \<Rightarrow> Inl e
      | Inr (p', rooms', r) \<Rightarrow>
          (case run p' rooms' as of
             Inl e \<Rightarrow> Inl e
           | Inr (p'', rooms'', l) \<Rightarrow> Inr (p'', rooms'', (a, r) # l)))"

text \<open>A successful move is a call of \<^verbatim>\<open>move_player\<close> that returned \<^verbatim>\<open>True\<close>.\<close>

fun successful_move :: "action \<times> bool option \<Rightarrow> bool" where
  "successful_move (Move _, r) = (r = Some True)"
| "successful_move (_, r) = False"

definition successful_moves :: "log \<Rightarrow> nat" where
  "successful_moves l = length (filter successful_move l)"

text \<open>A sequence of Take actions alone, in either program.\<close>

fun takes ::
  "'a player_scheme \<Rightarrow> rooms \<Rightarrow> string list \<Rightarrow> py_error + ('a player_scheme \<times> rooms)" where
  "takes p rooms [] = Inr (p, rooms)"
| "takes p rooms (item_name # rest) =
     (case pick_up_item p rooms item_name of
        Inl e \<Rightarrow> Inl e
      | Inr (p', rooms', _, _) \<Rightarrow> takes p' rooms' rest)"

section \<open>The console game loop\<close>

text \<open>
  One command is one pass through the \<^verbatim>\<open>while True\<close> of \<^verbatim>\<open>game_loop\<close>: the action
  typed in, with the line the handler asks for (a direction, an item) where it asks for
  one. \<open>CmdInvalid\<close> is any other input. \<open>dispatch\<close> is the \<^verbatim>\<open>if\<close>/\<^verbatim>\<open>elif\<close>
  chain of the loop; \<open>None\<close> is the \<^verbatim>\<open>return False\<close> of \<^verbatim>\<open>quit\<close>.
\<close>

datatype command =
    CmdMove string | CmdLook | CmdTake string | CmdBag | CmdUse string | CmdTalk
  | CmdMap | CmdHelp | CmdQuit | CmdInvalid

definition dispatch :: "command \<Rightarrow> player \<Rightarrow> rooms \<Rightarrow> py_error + (player \<times> rooms) option" where
  "dispatch c p rooms =
     (case c of
        CmdMove typed \<Rightarrow>
          (case move_player_cli p rooms typed of
             Inl e \<Rightarrow> Inl e
           | Inr (p', rooms', _) \<Rightarrow> Inr (Some (p', rooms')))
      | CmdLook \<Rightarrow>
          (case look_around p rooms of
             Inl e \<Rightarrow> Inl e
           | Inr (p', rooms', _) \<Rightarrow> Inr (Some (p', rooms')))
      | CmdTake typed \<Rightarrow>
          (case pick_up_item p rooms typed of
             Inl e \<Rightarrow> Inl e
           | Inr (p', rooms', _, _) \<Rightarrow> Inr (Some (p', rooms')))
      | CmdBag \<Rightarrow> Inr (Some (p, rooms))
      | CmdUse typed \<Rightarrow> Inr (Some (fst (use_item p typed), rooms))
      | CmdTalk \<Rightarrow> Inr (Some (fst (talk_to_character p), rooms))
      | CmdMap \<Rightarrow> Inr (Some (p, rooms))
      | CmdHelp \<Rightarrow> Inr (Some (p, rooms))
      | CmdQuit \<Rightarrow> Inr None
      | CmdInvalid \<Rightarrow> Inr (Some (p, rooms)))"

text \<open>
  How the loop ends: \<open>Won\<close> is \<^verbatim>\<open>return True\<close> after the win check, \<open>Quit\<close> and
  \<open>Lost\<close> are the two \<^verbatim>\<open>return False\<close>. \<open>Awaiting\<close> is the loop waiting for the
  next command when the commands given are used up, with the value of its local
  variable \<^verbatim>\<open>turns\<close>; \<open>Raised\<close> is an exception leaving the loop.
\<close>

datatype ending = Won | Quit | Lost

datatype loop_result =
    Awaiting int player rooms
  | Returned ending player rooms
  | Raised py_error

fun returned_value :: "ending \<Rightarrow> bool" where
  "returned_value Won = True"
| "returned_value Quit = False"
| "returned_value Lost = False"

text \<open>
  \<^verbatim>\<open>game_loop\<close>, started with \<^verbatim>\<open>turns = 0\<close>. Each pass increments \<^verbatim>\<open>turns\<close>, shows
  the room (\<^verbatim>\<open>display_current_room\<close> looks the position up), runs the command, checks
  for a win, and past turn 50 takes 5 from the health. The noises of every tenth turn
  are printed and change nothing; the commands \<^verbatim>\<open>bag\<close>, \<^verbatim>\<open>map\<close> and \<^verbatim>\<open>help\<close> and
  an invalid command only print as well.
\<close>

fun game_loop :: "int \<Rightarrow> player \<Rightarrow> rooms \<Rightarrow> command list \<Rightarrow> loop_result" where
  "game_loop t p rooms [] = Awaiting t p rooms"
| "game_loop t p rooms (c # cs) =
     (case rooms (position p) of
        None \<Rightarrow> Raised KeyError
      | Some _ \<Rightarrow>
          (case dispatch c p rooms of
             Inl e \<Rightarrow> Raised e
           | Inr None \<Rightarrow> Returned Quit p rooms
           | Inr (Some (p1, rooms1)) \<Rightarrow>
               if fst (check_win_condition p1) then Returned Won p1 rooms1
               else if t + 1 > 50 then
                 (let p2 = p1\<lparr>health := health p1 - 5\<rparr>
                  in if health p2 \<le> 0 then Returned Lost p2 rooms1
                     else game_loop (t + 1) p2 rooms1 cs)
               else game_loop (t + 1) p1 rooms1 cs))"

section \<open>The invariant of a game\<close>

text \<open>
  What every handler keeps true, from the start of a game on: the position is a room,
  the Armory exists, every exit leads to a room, the bag holds at most four items, the
  player is not inside a locked Armory, and the Dungeon holds no item.
\<close>
definition game_inv :: "'a player_scheme \<Rightarrow> rooms \<Rightarrow> bool" where
  "game_inv p rooms \<longleftrightarrow>
     position p \<in> dom rooms \<and> ''Armory'' \<in> dom rooms
     \<and> (\<forall>r room d dest. rooms r = Some room \<longrightarrow> exits room d = Some dest \<longrightarrow> dest \<in> dom rooms)
     \<and> length (inventory p) \<le> 4
     \<and> (position p = ''Armory'' \<longrightarrow> (\<forall>a. rooms ''Armory'' = Some a \<longrightarrow> \<not> locked a))
     \<and> (\<forall>r. rooms ''Dungeon'' = Some r \<longrightarrow> items r = [])"

section \<open>Properties\<close>

lemma has_item_nonempty: "has_item p item \<Longrightarrow> inventory p \<noteq> []"
  by (auto simp: has_item_def)

subsection \<open>The handlers keep the invariant\<close>

lemma length_remove1_le: "length (remove1 x xs) \<le> length xs"
  by (induction xs) auto

lemma remove_item_inv: "game_inv p rooms \<Longrightarrow> game_inv (fst (remove_item p i)) rooms"
  using length_remove1_le [of i "inventory p"]
  by (auto simp: game_inv_def remove_item_def)

lemma health_update_inv: "game_inv p rooms \<Longrightarrow> game_inv (p\<lparr>health := h\<rparr>) rooms"
  by (simp add: game_inv_def)

lemma use_item_inv: "game_inv p rooms \<Longrightarrow> game_inv (fst (use_item p i)) rooms"
  by (simp add: use_item_def remove_item_inv health_update_inv)

lemma talk_inv: "game_inv p rooms \<Longrightarrow> game_inv (fst (talk_to_character p)) rooms"
  by (simp add: talk_to_character_def remove_item_inv)

lemma look_around_inv:
  "game_inv p rooms \<Longrightarrow> \<exists>ms. look_around p rooms = Inr (p, rooms, ms)"
  by (auto simp: game_inv_def look_around_def split: option.splits)

lemma pick_up_item_inv:
  assumes "game_inv p rooms"
  shows "\<exists>p' rooms' b ms. pick_up_item p rooms i = Inr (p', rooms', b, ms) \<and> game_inv p' rooms'"
proof -
  from assms obtain room where room: "rooms (position p) = Some room"
    by (auto simp: game_inv_def)
  show ?thesis
  proof (cases "items room = [] \<or> (position p = ''Armory'' \<and> locked room)
       \<or> (position p = ''Dungeon'' \<and> dark room \<and> \<not> has_item p ''Torch'')
       \<or> i \<notin> set (items room) \<or> \<not> length (inventory p) < 4")
    case True
    then show ?thesis using assms room
      by (auto simp: pick_up_item_def add_item_def)
  next
    case False
    then have res: "pick_up_item p rooms i =
        Inr (p\<lparr>inventory := inventory p @ [i]\<rparr>,
             rooms(position p \<mapsto> room\<lparr>items := remove1 i (items room)\<rparr>), True, [PickedUp i])"
      using room by (auto simp: pick_up_item_def add_item_def)
    have notd: "position p \<noteq> ''Dungeon''"
      using False assms room by (auto simp: game_inv_def)
    have "game_inv (p\<lparr>inventory := inventory p @ [i]\<rparr>)
            (rooms(position p \<mapsto> room\<lparr>items := remove1 i (items room)\<rparr>))"
      using assms room False notd
      unfolding game_inv_def
      by (auto split: if_splits)
    with res show ?thesis by auto
  qed
qed

lemma enter_inv:
  assumes "game_inv p rooms" "rooms (position p) = Some room" "exits room d = Some dest"
    and "dest = ''Armory'' \<longrightarrow> (\<forall>a. rooms ''Armory'' = Some a \<longrightarrow> \<not> locked a)"
  shows "game_inv (p\<lparr>position := dest, visited_rooms := V\<rparr>) rooms"
  using assms unfolding game_inv_def by auto

lemma unlock_inv:
  assumes "game_inv p rooms" "rooms ''Armory'' = Some armory"
  shows "game_inv (p\<lparr>position := ''Armory'', visited_rooms := V\<rparr>)
           (rooms(''Armory'' \<mapsto> armory\<lparr>locked := False\<rparr>))"
  using assms unfolding game_inv_def by (auto split: if_splits)

lemma turns_update_inv: "game_inv p rooms \<Longrightarrow> game_inv (p\<lparr>turns := t\<rparr>) rooms"
  by (simp add: game_inv_def)

lemma move_player_inv:
  assumes "game_inv p rooms"
  shows "\<exists>p' rooms' b ms. move_player p rooms d = Inr (p', rooms', b, ms) \<and> game_inv p' rooms'"
proof -
  from assms obtain room armory
    where room: "rooms (position p) = Some room" and armory: "rooms ''Armory'' = Some armory"
    by (auto simp: game_inv_def)
  show ?thesis
  proof (cases "exits room d")
    case None
    then show ?thesis using assms room by (auto simp: move_player_def)
  next
    case (Some dest)
    show ?thesis
    proof (cases "dest = ''Armory'' \<and> locked armory")
      case False
      have "game_inv (p\<lparr>position := dest, visited_rooms := finsert dest (visited_rooms p)\<rparr>) rooms"
        using enter_inv [OF assms room Some] False armory by auto
      then have "game_inv (p\<lparr>position := dest, visited_rooms := finsert dest (visited_rooms p),
                   turns := turns p + 1\<rparr>) rooms"
        by (rule turns_update_inv)
      then show ?thesis using room Some armory False
        by (auto simp: move_player_def)
    next
      case True
      show ?thesis
      proof (cases "has_item p ''Rusty Key''")
        case False
        then show ?thesis using assms room Some armory True
          by (auto simp: move_player_def)
      next
        case key: True
        let ?q = "fst (remove_item p ''Rusty Key'')"
        have "game_inv ?q rooms" using assms by (rule remove_item_inv)
        then have "game_inv (?q\<lparr>position := ''Armory'',
                      visited_rooms := finsert ''Armory'' (visited_rooms ?q)\<rparr>)
                    (rooms(''Armory'' \<mapsto> armory\<lparr>locked := False\<rparr>))"
          using armory by (rule unlock_inv)
        then have "game_inv (?q\<lparr>position := ''Armory'',
                      visited_rooms := finsert ''Armory'' (visited_rooms ?q),
                      turns := turns ?q + 1\<rparr>)
                    (rooms(''Armory'' \<mapsto> armory\<lparr>locked := False\<rparr>))"
          by (rule turns_update_inv)
        then show ?thesis using room Some armory True key
          by (auto simp: move_player_def Let_def)
      qed
    qed
  qed
qed

lemma move_player_cli_inv:
  assumes "game_inv p rooms"
  shows "\<exists>p' rooms' ms. move_player_cli p rooms typed = Inr (p', rooms', ms) \<and> game_inv p' rooms'"
proof -
  from assms obtain room armory
    where room: "rooms (position p) = Some room" and armory: "rooms ''Armory'' = Some armory"
    by (auto simp: game_inv_def)
  show ?thesis
  proof (cases "exit_list room = [] \<or> parse_direction typed = None")
    case True
    then show ?thesis using assms room by (auto simp: move_player_cli_def)
  next
    case ok: False
    then obtain d where d: "parse_direction typed = Some d" by auto
    show ?thesis
    proof (cases "exits room d")
      case None
      then show ?thesis using assms room d ok by (auto simp: move_player_cli_def)
    next
      case (Some dest)
      show ?thesis
      proof (cases "dest = ''Armory'' \<and> locked armory")
        case False
        have "game_inv (p\<lparr>position := dest, visited_rooms := finsert dest (visited_rooms p)\<rparr>) rooms"
          using enter_inv [OF assms room Some] False armory by auto
        then show ?thesis using room Some armory False d ok
          by (auto simp: move_player_cli_def)
      next
        case True
        show ?thesis
        proof (cases "has_item p ''Rusty Key''")
          case False
          then show ?thesis using assms room Some armory True d ok
            by (auto simp: move_player_cli_def)
        next
          case key: True
          let ?q = "fst (remove_item p ''Rusty Key'')"
          have "game_inv ?q rooms" using assms by (rule remove_item_inv)
          then have "game_inv (?q\<lparr>position := ''Armory'',
                        visited_rooms := finsert ''Armory'' (visited_rooms ?q)\<rparr>)
                      (rooms(''Armory'' \<mapsto> armory\<lparr>locked := False\<rparr>))"
            using armory by (rule unlock_inv)
          then show ?thesis using room Some armory True key d ok
            by (auto simp: move_player_cli_def Let_def)
        qed
      qed
    qed
  qed
qed

lemma perform_inv:
  assumes "game_inv p rooms" and "handler_action a"
  shows "\<exists>p' rooms' r. perform a p rooms = Inr (p', rooms', r) \<and> game_inv p' rooms'"
proof (cases a)
  case (Move d)
  then show ?thesis using move_player_inv [OF assms(1), of d]
    by (auto simp: perform_def)
next
  case Look
  then show ?thesis using look_around_inv [OF assms(1)] assms(1)
    by (auto simp: perform_def)
next
  case (Take i)
  then show ?thesis using pick_up_item_inv [OF assms(1), of i]
    by (auto simp: perform_def)
next
  case (Use i)
  then show ?thesis using use_item_inv [OF assms(1), of i]
    by (simp add: perform_def)
next
  case Talk
  then show ?thesis using talk_inv [OF assms(1)]
    by (simp add: perform_def)
next
  case (Load d)
  then show ?thesis using assms(2) by simp
qed

lemma run_inv:
  "game_inv p rooms \<Longrightarrow> list_all handler_action as \<Longrightarrow>
     \<exists>p' rooms' l. run p rooms as = Inr (p', rooms', l) \<and> game_inv p' rooms'"
proof (induction as arbitrary: p rooms)
  case Nil
  then show ?case by simp
next
  case (Cons a as)
  from Cons.prems have ha: "handler_action a" and has: "list_all handler_action as"
    by simp_all
  from perform_inv [OF Cons.prems(1) ha] obtain p1 rooms1 r
    where step: "perform a p rooms = Inr (p1, rooms1, r)" and inv1: "game_inv p1 rooms1"
    by blast
  from Cons.IH [OF inv1 has] obtain p2 rooms2 l
    where rest: "run p1 rooms1 as = Inr (p2, rooms2, l)" and inv2: "game_inv p2 rooms2"
    by blast
  show ?case using step rest inv2 by simp
qed

lemma dispatch_inv:
  assumes "game_inv p rooms"
  shows "dispatch c p rooms = Inr None
       \<or> (\<exists>p' rooms'. dispatch c p rooms = Inr (Some (p', rooms')) \<and> game_inv p' rooms')"
proof (cases c)
  case (CmdMove typed)
  then show ?thesis using move_player_cli_inv [OF assms, of typed]
    by (auto simp: dispatch_def)
next
  case CmdLook
  then show ?thesis using look_around_inv [OF assms] assms
    by (auto simp: dispatch_def)
next
  case (CmdTake typed)
  then show ?thesis using pick_up_item_inv [OF assms, of typed]
    by (auto simp: dispatch_def)
next
  case (CmdUse typed)
  then show ?thesis using use_item_inv [OF assms, of typed]
    by (simp add: dispatch_def)
next
  case CmdTalk
  then show ?thesis using talk_inv [OF assms]
    by (simp add: dispatch_def)
qed (use assms in \<open>simp_all add: dispatch_def\<close>)

lemma game_loop_inv:
  "game_inv p rooms \<Longrightarrow>
     (\<exists>t' p' rooms'. game_loop t p rooms cs = Awaiting t' p' rooms' \<and> game_inv p' rooms')
     \<or> (\<exists>e p' rooms'. game_loop t p rooms cs = Returned e p' rooms' \<and> game_inv p' rooms')"
proof (induction cs arbitrary: t p rooms)
  case Nil
  then show ?case by simp
next
  case (Cons c cs)
  from Cons.prems obtain room where room: "rooms (position p) = Some room"
    by (auto simp: game_inv_def)
  from dispatch_inv [OF Cons.prems, of c] show ?case
  proof
    assume "dispatch c p rooms = Inr None"
    then show ?thesis using room Cons.prems by simp
  next
    assume "\<exists>p' rooms'. dispatch c p rooms = Inr (Some (p', rooms')) \<and> game_inv p' rooms'"
    then obtain p1 rooms1
      where d: "dispatch c p rooms = Inr (Some (p1, rooms1))" and inv1: "game_inv p1 rooms1"
      by blast
    have inv2: "game_inv (p1\<lparr>health := health p1 - 5\<rparr>) rooms1"
      using inv1 by (rule health_update_inv)
    show ?thesis
      using room d inv1 inv2 Cons.IH [OF inv1, of "t + 1"] Cons.IH [OF inv2, of "t + 1"]
      by (simp add: Let_def)
  qed
qed

lemma init_web_inv: "Player_web n = Some p0 \<Longrightarrow> game_inv p0 initialize_game"
  by (auto simp: Player_web_def game_inv_def initialize_game_def split: if_splits)

lemma init_cli_inv: "game_inv (fst (initialize_game_cli n)) (snd (initialize_game_cli n))"
  by (auto simp: initialize_game_cli_def Player_cli_def game_inv_def initialize_game_def Let_def
           split: if_splits)

subsection \<open>Sequences of Take actions\<close>

lemma pick_up_item_length:
  "pick_up_item p rooms i = Inr (p', rooms', b, ms) \<Longrightarrow> length (inventory p) \<le> 4
   \<Longrightarrow> length (inventory p') \<le> 4"
  by (auto simp: pick_up_item_def add_item_def split: option.splits if_splits)

lemma pick_up_item_position:
  "pick_up_item p rooms i = Inr (p', rooms', b, ms) \<Longrightarrow> position p' = position p"
  by (auto simp: pick_up_item_def add_item_def split: option.splits if_splits)

lemma pick_up_item_dom:
  "pick_up_item p rooms i = Inr (p', rooms', b, ms) \<Longrightarrow> dom rooms' = dom rooms"
  by (auto simp: pick_up_item_def add_item_def split: option.splits if_splits)

lemma pick_up_item_returns:
  "position p \<in> dom rooms \<Longrightarrow> \<exists>r. pick_up_item p rooms i = Inr r"
  by (auto simp: pick_up_item_def add_item_def split: option.splits if_splits)

lemma takes_returns:
  "position p \<in> dom rooms \<Longrightarrow> length (inventory p) \<le> 4 \<Longrightarrow>
     \<exists>p' rooms'. takes p rooms its = Inr (p', rooms') \<and> length (inventory p') \<le> 4"
proof (induction its arbitrary: p rooms)
  case Nil
  then show ?case by simp
next
  case (Cons i its)
  from pick_up_item_returns [OF Cons.prems(1)] obtain p1 rooms1 b ms
    where step: "pick_up_item p rooms i = Inr (p1, rooms1, b, ms)"
    by (metis prod_cases4)
  have "position p1 \<in> dom rooms1"
    using pick_up_item_position [OF step] pick_up_item_dom [OF step] Cons.prems(1) by simp
  moreover have "length (inventory p1) \<le> 4"
    using pick_up_item_length [OF step Cons.prems(2)] .
  ultimately show ?case
    using Cons.IH [of p1 rooms1] step by simp
qed

lemma entrance_in_rooms: "''Entrance Hall'' \<in> dom initialize_game"
  by (simp add: initialize_game_def)

lemmas handler_defs =
  perform_def move_player_def move_player_cli_def pick_up_item_def look_around_def
  use_item_def talk_to_character_def add_item_def remove_item_def has_item_def
  dispatch_def parse_direction_def exit_list_def check_win_condition_def Let_def

lemmas start_defs = initialize_game_def initialize_game_cli_def Player_cli_def Player_web_def

subsection \<open>The turn counter of the web player\<close>

lemma move_player_turns:
  "move_player p rooms d = Inr (p', rooms', b, ms) \<Longrightarrow>
     turns p' = turns p + (if b then 1 else 0)"
  by (auto simp: move_player_def remove_item_def Let_def split: option.splits if_splits)

lemma pick_up_item_turns:
  "pick_up_item p rooms i = Inr (p', rooms', b, ms) \<Longrightarrow> turns p' = turns p"
  by (auto simp: pick_up_item_def add_item_def split: option.splits if_splits)

lemma look_around_same:
  "look_around p rooms = Inr (p', rooms', ms) \<Longrightarrow> p' = p \<and> rooms' = rooms"
  by (auto simp: look_around_def split: option.splits if_splits)

lemma use_item_turns: "turns (fst (use_item p i)) = turns p"
  by (simp add: use_item_def remove_item_def)

lemma talk_turns: "turns (fst (talk_to_character p)) = turns p"
  by (simp add: talk_to_character_def remove_item_def)

lemma perform_turns:
  assumes "perform a p rooms = Inr (p', rooms', r)" and "handler_action a"
  shows "turns p' = turns p + (if successful_move (a, r) then 1 else 0)"
proof (cases a)
  case (Move d)
  then show ?thesis using assms(1) move_player_turns [of p rooms d]
    by (auto simp: perform_def split: sum.splits if_splits)
next
  case Look
  then show ?thesis using assms(1) look_around_same [of p rooms]
    by (auto simp: perform_def split: sum.splits)
next
  case (Take i)
  then show ?thesis using assms(1) pick_up_item_turns [of p rooms i]
    by (auto simp: perform_def split: sum.splits)
next
  case (Use i)
  then show ?thesis using assms(1) use_item_turns [of p i]
    by (auto simp: perform_def)
next
  case Talk
  then show ?thesis using assms(1) talk_turns [of p]
    by (auto simp: perform_def)
next
  case (Load d)
  then show ?thesis using assms(2) by simp
qed

lemma from_dict_turns: "turns (from_dict data) = d_turns data"
  by (simp add: from_dict_def split: option.splits)

lemma run_turns:
  "run p rooms as = Inr (p', rooms', l) \<Longrightarrow> list_all handler_action as \<Longrightarrow>
     turns p' = turns p + int (successful_moves l)"
proof (induction as arbitrary: p rooms l)
  case Nil
  then show ?case by (simp add: successful_moves_def)
next
  case (Cons a as)
  from Cons.prems(1) obtain p1 rooms1 r l1
    where step: "perform a p rooms = Inr (p1, rooms1, r)"
      and rest: "run p1 rooms1 as = Inr (p', rooms', l1)"
      and l: "l = (a, r) # l1"
    by (auto split: sum.splits)
  from Cons.prems(2) have ha: "handler_action a" and has: "list_all handler_action as"
    by simp_all
  from Cons.IH [OF rest has] perform_turns [OF step ha] l show ?case
    by (simp add: successful_moves_def)
qed

subsection \<open>The health of the web player\<close>

lemma pick_up_item_health:
  "pick_up_item p rooms i = Inr (p', rooms', b, ms) \<Longrightarrow> health p' = health p"
  by (auto simp: pick_up_item_def add_item_def split: option.splits if_splits)

lemma move_player_health:
  "move_player p rooms d = Inr (p', rooms', b, ms) \<Longrightarrow> health p' = health p"
  by (auto simp: move_player_def remove_item_def Let_def split: option.splits if_splits)

lemma use_item_health:
  "health p = 100 \<Longrightarrow> health (fst (use_item p i)) = 100"
  by (simp add: use_item_def remove_item_def)

lemma talk_health: "health (fst (talk_to_character p)) = health p"
  by (simp add: talk_to_character_def remove_item_def)

lemma perform_health:
  assumes "perform a p rooms = Inr (p', rooms', r)" and "handler_action a"
    and "health p = 100"
  shows "health p' = 100"
proof (cases a)
  case (Move d)
  then show ?thesis using assms(1,3) move_player_health [of p rooms d]
    by (auto simp: perform_def split: sum.splits)
next
  case Look
  then show ?thesis using assms(1,3) look_around_same [of p rooms]
    by (auto simp: perform_def split: sum.splits)
next
  case (Take i)
  then show ?thesis using assms(1,3) pick_up_item_health [of p rooms i]
    by (auto simp: perform_def split: sum.splits)
next
  case (Use i)
  then show ?thesis using assms(1,3) use_item_health [of p i]
    by (auto simp: perform_def)
next
  case Talk
  then show ?thesis using assms(1,3) talk_health [of p]
    by (auto simp: perform_def)
next
  case (Load d)
  then show ?thesis using assms(2) by simp
qed

lemma run_health:
  "run p rooms as = Inr (p', rooms', l) \<Longrightarrow> list_all handler_action as \<Longrightarrow>
     health p = 100 \<Longrightarrow> health p' = 100"
proof (induction as arbitrary: p rooms l)
  case Nil
  then show ?case by simp
next
  case (Cons a as)
  from Cons.prems(1) obtain p1 rooms1 r l1
    where step: "perform a p rooms = Inr (p1, rooms1, r)"
      and rest: "run p1 rooms1 as = Inr (p', rooms', l1)"
    by (auto split: sum.splits)
  from Cons.prems(2) have ha: "handler_action a" and has: "list_all handler_action as"
    by simp_all
  from perform_health [OF step ha Cons.prems(3)] have "health p1 = 100" .
  from Cons.IH [OF rest has this] show ?case .
qed

subsection \<open>The console game loop\<close>

lemma game_loop_stops:
  "game_loop t p rooms cs = Returned e p' rooms' \<Longrightarrow>
     game_loop t p rooms (cs @ later) = Returned e p' rooms'"
proof (induction cs arbitrary: t p rooms)
  case Nil
  then show ?case by simp
next
  case (Cons c cs)
  then show ?case
    by (auto simp: Let_def split: option.splits sum.splits if_splits)
qed

lemma game_loop_counts:
  "game_loop t p rooms cs = Awaiting t' p' rooms' \<Longrightarrow> t' = t + int (length cs)"
proof (induction cs arbitrary: t p rooms)
  case Nil
  then show ?case by simp
next
  case (Cons c cs)
  then show ?case
    by (fastforce simp: Let_def split: option.splits sum.splits if_splits)
qed

lemma dispatch_look:
  "rooms (position p) \<noteq> None \<Longrightarrow> dispatch CmdLook p rooms = Inr (Some (p, rooms))"
  by (auto simp: dispatch_def look_around_def)

lemma looks_below_50:
  "rooms (position p) \<noteq> None \<Longrightarrow> \<not> fst (check_win_condition p) \<Longrightarrow> t + int k \<le> 50 \<Longrightarrow>
     game_loop t p rooms (replicate k CmdLook @ cs) = game_loop (t + int k) p rooms cs"
proof (induction k arbitrary: t)
  case 0
  then show ?case by simp
next
  case (Suc k)
  have "game_loop t p rooms (replicate (Suc k) CmdLook @ cs)
        = game_loop (t + 1) p rooms (replicate k CmdLook @ cs)"
    using Suc.prems dispatch_look [of rooms p] by auto
  also have "\<dots> = game_loop (t + 1 + int k) p rooms cs"
    using Suc.prems by (intro Suc.IH) auto
  finally show ?case by (simp add: add.assoc)
qed

lemma game_loop_append:
  "game_loop t p rooms cs = Awaiting t' p' rooms' \<Longrightarrow>
     game_loop t p rooms (cs @ later) = game_loop t' p' rooms' later"
proof (induction cs arbitrary: t p rooms)
  case Nil
  then show ?case by simp
next
  case (Cons c cs)
  then show ?case
    by (auto simp: Let_def split: option.splits sum.splits if_splits)
qed

text \<open>
  A long walk of the console game: fifty moves between the Entrance Hall and the
  Courtyard, then five more to the Throne Room. The passes 51 to 55 each take 5 from
  the health.
\<close>

lemma fifty_five_moves:
  "game_loop 0 (fst (initialize_game_cli ''Ada'')) (snd (initialize_game_cli ''Ada''))
     (concat (replicate 25 [CmdMove ''north'', CmdMove ''south''])
       @ [CmdMove ''north'', CmdMove ''east'', CmdMove ''south'', CmdMove ''east'',
          CmdMove ''north''])
   = Awaiting 55
       \<lparr>name = Some ''Ada'', position = ''Throne Room'', inventory = [], health = 75,
        visited_rooms = {|''Throne Room'', ''Secret Passage'', ''Dungeon'', ''Kitchen'',
                          ''Courtyard'', ''Entrance Hall''|}\<rparr>
       initialize_game"
  by (simp add: start_defs handler_defs eval_nat_numeral) auto

subsection \<open>Consequences of the invariant\<close>

lemma inv_bag_full:
  assumes "game_inv p rooms" and "rooms (position p) = Some room"
    and "item \<in> set (items room)" and "length (inventory p) = 4"
  shows "pick_up_item p rooms item = Inr (p, rooms, False, [BagFull])"
proof -
  have "items room \<noteq> []" using assms(3) by auto
  moreover have "\<not> (position p = ''Armory'' \<and> locked room)"
    using assms(1,2) by (auto simp: game_inv_def)
  moreover have "position p \<noteq> ''Dungeon''"
    using assms(1,2,3) by (auto simp: game_inv_def)
  ultimately show ?thesis
    using assms(2,3,4) by (simp add: pick_up_item_def add_item_def)
qed

lemma run_reaches_inv:
  "Player_web n = Some p0 \<Longrightarrow> list_all handler_action as \<Longrightarrow>
     run p0 initialize_game as = Inr (p, rooms, l) \<Longrightarrow> game_inv p rooms"
  using run_inv [OF init_web_inv, of n p0 as] by auto

lemma game_loop_reaches_inv:
  "game_loop 0 (fst (initialize_game_cli n)) (snd (initialize_game_cli n)) cs = Awaiting t p rooms
     \<or> game_loop 0 (fst (initialize_game_cli n)) (snd (initialize_game_cli n)) cs = Returned e p rooms
   \<Longrightarrow> game_inv p rooms"
  using game_loop_inv [OF init_cli_inv, of 0 n cs] by auto

lemma inv_armory_open:
  assumes "game_inv p rooms"
  shows "(position p = ''Armory'' \<longrightarrow> (\<exists>a. rooms ''Armory'' = Some a \<and> \<not> locked a))
       \<and> (\<forall>i. \<exists>p' rooms' b ms. pick_up_item p rooms i = Inr (p', rooms', b, ms)
                \<and> ArmoryDoorLocked \<notin> set ms)"
proof -
  from assms obtain room armory
    where room: "rooms (position p) = Some room" and armory: "rooms ''Armory'' = Some armory"
    by (auto simp: game_inv_def)
  have open_inside: "position p = ''Armory'' \<longrightarrow> \<not> locked armory"
    using assms armory by (auto simp: game_inv_def)
  have "\<exists>p' rooms' b ms. pick_up_item p rooms i = Inr (p', rooms', b, ms)
                \<and> ArmoryDoorLocked \<notin> set ms" for i
    using room armory open_inside
    by (auto simp: pick_up_item_def add_item_def)
  with armory open_inside show ?thesis by auto
qed

subsection \<open>Loading a player saved without a name\<close>

text \<open>
  Why the round trip needs a non-empty name: for the empty name \<^verbatim>\<open>from_dict\<close> yields
  a player without the attribute.
\<close>

lemma from_dict_empty_name: "d_name data = [] \<Longrightarrow> name (from_dict data) = None"
  by (simp add: from_dict_def Player_web_def)

subsection \<open>The claims\<close>

text \<open>
  Claim C1. The win check returns true exactly when the player stands in the Throne
  Room and holds the Golden Crown, and the score it then reports is ten times the
  number of visited rooms plus five times the number of items held; with six visited
  rooms and two items the score is 70.
\<close>

theorem C1_win_check:
  "(fst (check_win_condition p) \<longleftrightarrow>
      (position p = ''Throne Room'' \<and> ''Golden Crown'' \<in> set (inventory p)))
   \<and> (fst (check_win_condition p) \<longrightarrow>
        snd (check_win_condition p) =
          [Victory (10 * int (fcard (visited_rooms p)) + 5 * int (length (inventory p)))])
   \<and> check_win_condition
        \<lparr>name = Some ''Ada'', position = ''Throne Room'',
         inventory = [''Torch'', ''Golden Crown''], health = 100,
         visited_rooms = {|''Entrance Hall'', ''Courtyard'', ''Kitchen'', ''Dungeon'',
                           ''Secret Passage'', ''Throne Room''|}\<rparr>
      = (True, [Victory 70])"
  by (simp add: check_win_condition_def has_item_def fcard_finsert_if fcard_fempty)

theorem C1_win_check_witness:
  "fst (check_win_condition
     \<lparr>name = Some ''Ada'', position = ''Throne Room'', inventory = [''Golden Crown''],
      health = 100, visited_rooms = {|''Throne Room''|}\<rparr>)
   \<and> snd (check_win_condition
     \<lparr>name = Some ''Ada'', position = ''Throne Room'', inventory = [''Golden Crown''],
      health = 100, visited_rooms = {|''Throne Room''|}\<rparr>) = [Victory 15]"
  using C1_win_check [of "\<lparr>name = Some ''Ada'', position = ''Throne Room'',
      inventory = [''Golden Crown''], health = 100, visited_rooms = {|''Throne Room''|}\<rparr>"]
  by (simp add: fcard_finsert_if fcard_fempty)

text \<open>
  Claim C8. Using the Healing Herb while it is held sets the health to
  \<open>min 100 (health + 30)\<close> and removes one Healing Herb from the inventory: at health
  80 the health becomes 100, and at health 100 it stays 100 and the herb is still
  consumed.
\<close>

theorem C8_healing_herb:
  "has_item p ''Healing Herb'' \<Longrightarrow>
     use_item p ''Healing Herb'' =
       (p\<lparr>health := min 100 (health p + 30),
          inventory := remove1 ''Healing Herb'' (inventory p)\<rparr>, [AteHerb])
     \<and> (health p = 80 \<longrightarrow> health (fst (use_item p ''Healing Herb'')) = 100)
     \<and> (health p = 100 \<longrightarrow> health (fst (use_item p ''Healing Herb'')) = 100)"
  using has_item_nonempty [of p "''Healing Herb''"]
  by (simp add: use_item_def remove_item_def has_item_def)

theorem C8_healing_herb_witness:
  "has_item \<lparr>name = Some ''Ada'', position = ''Kitchen'', inventory = [''Torch'', ''Healing Herb''],
             health = 80, visited_rooms = {|''Kitchen''|}\<rparr> ''Healing Herb''
   \<and> use_item \<lparr>name = Some ''Ada'', position = ''Kitchen'', inventory = [''Torch'', ''Healing Herb''],
             health = 80, visited_rooms = {|''Kitchen''|}\<rparr> ''Healing Herb''
     = (\<lparr>name = Some ''Ada'', position = ''Kitchen'', inventory = [''Torch''],
             health = 100, visited_rooms = {|''Kitchen''|}\<rparr>, [AteHerb])"
  using C8_healing_herb [of "\<lparr>name = Some ''Ada'', position = ''Kitchen'',
             inventory = [''Torch'', ''Healing Herb''], health = 80, visited_rooms = {|''Kitchen''|}\<rparr>"]
  by (simp add: has_item_def)

text \<open>
  Claim C2. Whatever sequence of Take actions is played, from the start of a game or
  from any state whose inventory is within the bound, the inventory never holds more
  than four items; the same holds after any commands of the console game and after any
  handler actions of the web game. \<open>add_item\<close> returns false exactly when the
  inventory is at its capacity of four (for an inventory within the bound: exactly when
  it holds four items), leaving it as it is; otherwise it appends the item at the end
  and returns true.
\<close>

theorem C2_inventory_bound:
  "(position p = ''Entrance Hall'' \<and> inventory p = [] \<longrightarrow>
      (\<exists>p' rooms'. takes p initialize_game its = Inr (p', rooms') \<and> length (inventory p') \<le> 4))
   \<and> (length (inventory p2) \<le> 4 \<and> position p2 \<in> dom rooms2 \<longrightarrow>
      (\<exists>p' rooms'. takes p2 rooms2 its2 = Inr (p', rooms') \<and> length (inventory p') \<le> 4))
   \<and> (\<exists>q3 rooms3.
        ((\<exists>t. game_loop 0 (fst (initialize_game_cli n3)) (snd (initialize_game_cli n3)) cs
                = Awaiting t q3 rooms3)
         \<or> (\<exists>e. game_loop 0 (fst (initialize_game_cli n3)) (snd (initialize_game_cli n3)) cs
                = Returned e q3 rooms3))
        \<and> length (inventory q3) \<le> 4)
   \<and> (Player_web n4 = Some p4 \<and> list_all handler_action as \<longrightarrow>
        (\<exists>p' rooms' l. run p4 initialize_game as = Inr (p', rooms', l)
           \<and> length (inventory p') \<le> 4))
   \<and> (snd (add_item q item) = False \<longleftrightarrow> 4 \<le> length (inventory q))
   \<and> (length (inventory q) \<le> 4 \<longrightarrow>
        (snd (add_item q item) = False \<longleftrightarrow> length (inventory q) = 4))
   \<and> (snd (add_item q item) = False \<longrightarrow> fst (add_item q item) = q)
   \<and> (snd (add_item q item) = True \<longrightarrow>
        fst (add_item q item) = q\<lparr>inventory := inventory q @ [item]\<rparr>)"
proof -
  have start: "\<exists>p' rooms'. takes p initialize_game its = Inr (p', rooms')
                 \<and> length (inventory p') \<le> 4"
    if "position p = ''Entrance Hall''" "inventory p = []"
    using takes_returns [of p initialize_game its] that entrance_in_rooms by simp
  have anywhere: "\<exists>p' rooms'. takes p2 rooms2 its2 = Inr (p', rooms')
                 \<and> length (inventory p') \<le> 4"
    if "length (inventory p2) \<le> 4" "position p2 \<in> dom rooms2"
    using takes_returns [of p2 rooms2 its2] that by simp
  have console: "\<exists>q3 rooms3.
        ((\<exists>t. game_loop 0 (fst (initialize_game_cli n3)) (snd (initialize_game_cli n3)) cs
                = Awaiting t q3 rooms3)
         \<or> (\<exists>e. game_loop 0 (fst (initialize_game_cli n3)) (snd (initialize_game_cli n3)) cs
                = Returned e q3 rooms3))
        \<and> length (inventory q3) \<le> 4"
    using game_loop_inv [OF init_cli_inv, of 0 n3 cs] unfolding game_inv_def by blast
  have web: "\<exists>p' rooms' l. run p4 initialize_game as = Inr (p', rooms', l)
           \<and> length (inventory p') \<le> 4"
    if "Player_web n4 = Some p4" "list_all handler_action as"
    using run_inv [OF init_web_inv, of n4 p4 as] that unfolding game_inv_def by blast
  have add: "(snd (add_item q item) = False \<longleftrightarrow> 4 \<le> length (inventory q))
   \<and> (length (inventory q) \<le> 4 \<longrightarrow>
        (snd (add_item q item) = False \<longleftrightarrow> length (inventory q) = 4))
   \<and> (snd (add_item q item) = False \<longrightarrow> fst (add_item q item) = q)
   \<and> (snd (add_item q item) = True \<longrightarrow>
        fst (add_item q item) = q\<lparr>inventory := inventory q @ [item]\<rparr>)"
    by (auto simp: add_item_def)
  from start anywhere console web add show ?thesis by blast
qed

theorem C2_inventory_bound_witness:
  "takes \<lparr>name = Some ''Ada'', position = ''Library'',
          inventory = [''Torch'', ''Crowbar'', ''Healing Herb''], health = 100,
          visited_rooms = {|''Library''|}\<rparr> initialize_game [''Rusty Key'', ''Old Book'']
     = Inr (\<lparr>name = Some ''Ada'', position = ''Library'',
              inventory = [''Torch'', ''Crowbar'', ''Healing Herb'', ''Rusty Key''], health = 100,
              visited_rooms = {|''Library''|}\<rparr>,
            initialize_game(''Library'' \<mapsto>
              \<lparr>exits = [West \<mapsto> ''Entrance Hall'', North \<mapsto> ''Study''],
               items = [''Old Book''], locked = False, dark = False\<rparr>))
   \<and> (\<exists>t q rooms.
        game_loop 0 (fst (initialize_game_cli ''Bob'')) (snd (initialize_game_cli ''Bob''))
          [CmdTake ''Torch'', CmdMove ''east'', CmdTake ''Rusty Key'', CmdTake ''Old Book'',
           CmdMove ''north'', CmdTake ''Note'', CmdMove ''south'', CmdMove ''west'',
           CmdMove ''north'', CmdMove ''north'', CmdTake ''Crowbar''] = Awaiting t q rooms
        \<and> inventory q = [''Torch'', ''Rusty Key'', ''Old Book'', ''Note''])
   \<and> (\<exists>p rooms l.
        run \<lparr>name = Some ''Ada'', position = ''Entrance Hall'', inventory = [], health = 100,
             visited_rooms = {|''Entrance Hall''|}, turns = 0\<rparr> initialize_game
          [Take ''Torch'', Move East, Take ''Rusty Key'', Take ''Old Book'', Move North,
           Take ''Note'', Move South, Move West, Move North, Move East,
           Take ''Healing Herb''] = Inr (p, rooms, l)
        \<and> inventory p = [''Torch'', ''Rusty Key'', ''Old Book'', ''Note''])
   \<and> add_item \<lparr>name = Some ''Ada'', position = ''Study'',
                 inventory = [''Torch'', ''Rusty Key'', ''Old Book'', ''Note''], health = 100,
                 visited_rooms = {|''Study''|}\<rparr> ''Crowbar''
       = (\<lparr>name = Some ''Ada'', position = ''Study'',
            inventory = [''Torch'', ''Rusty Key'', ''Old Book'', ''Note''], health = 100,
            visited_rooms = {|''Study''|}\<rparr>, False)
   \<and> add_item \<lparr>name = Some ''Ada'', position = ''Study'',
                 inventory = [''Torch''], health = 100, visited_rooms = {|''Study''|}\<rparr> ''Note''
       = (\<lparr>name = Some ''Ada'', position = ''Study'',
            inventory = [''Torch'', ''Note''], health = 100, visited_rooms = {|''Study''|}\<rparr>, True)"
proof -
  let ?lib = "\<lparr>name = Some ''Ada'', position = ''Library'',
          inventory = [''Torch'', ''Crowbar'', ''Healing Herb''], health = 100,
          visited_rooms = {|''Library''|}\<rparr>"
  let ?p0 = "\<lparr>name = Some ''Ada'', position = ''Entrance Hall'', inventory = [], health = 100,
             visited_rooms = {|''Entrance Hall''|}, turns = 0\<rparr>"
  let ?as = "[Take ''Torch'', Move East, Take ''Rusty Key'', Take ''Old Book'', Move North,
           Take ''Note'', Move South, Move West, Move North, Move East, Take ''Healing Herb'']"
  let ?cs = "[CmdTake ''Torch'', CmdMove ''east'', CmdTake ''Rusty Key'', CmdTake ''Old Book'',
           CmdMove ''north'', CmdTake ''Note'', CmdMove ''south'', CmdMove ''west'',
           CmdMove ''north'', CmdMove ''north'', CmdTake ''Crowbar'']"
  let ?full = "\<lparr>name = Some ''Ada'', position = ''Study'',
                 inventory = [''Torch'', ''Rusty Key'', ''Old Book'', ''Note''], health = 100,
                 visited_rooms = {|''Study''|}\<rparr>"
  let ?one = "\<lparr>name = Some ''Ada'', position = ''Study'',
                 inventory = [''Torch''], health = 100, visited_rooms = {|''Study''|}\<rparr>"
  note thm1 = C2_inventory_bound [of "fst (initialize_game_cli ''Ada'')" "[''Torch'']"
      ?lib initialize_game "[''Rusty Key'', ''Old Book'']" "''Bob''" ?cs "''Ada''" ?p0 ?as
      ?full "''Crowbar''"]
  note thm2 = C2_inventory_bound [of "fst (initialize_game_cli ''Ada'')" "[''Torch'']"
      ?lib initialize_game "[''Rusty Key'', ''Old Book'']" "''Bob''" ?cs "''Ada''" ?p0 ?as
      ?one "''Note''"]
  have start: "Player_web ''Ada'' = Some ?p0" "list_all handler_action ?as"
    by (simp_all add: Player_web_def)
  have lib: "takes ?lib initialize_game [''Rusty Key'', ''Old Book'']
     = Inr (\<lparr>name = Some ''Ada'', position = ''Library'',
              inventory = [''Torch'', ''Crowbar'', ''Healing Herb'', ''Rusty Key''], health = 100,
              visited_rooms = {|''Library''|}\<rparr>,
            initialize_game(''Library'' \<mapsto>
              \<lparr>exits = [West \<mapsto> ''Entrance Hall'', North \<mapsto> ''Study''],
               items = [''Old Book''], locked = False, dark = False\<rparr>))"
    by (simp add: initialize_game_def pick_up_item_def add_item_def has_item_def)
  from thm1 start obtain p rooms l where r: "run ?p0 initialize_game ?as = Inr (p, rooms, l)"
    by blast
  have web: "inventory p = [''Torch'', ''Rusty Key'', ''Old Book'', ''Note'']"
    using r by (auto simp: handler_defs initialize_game_def)
  from thm1 obtain q rooms3 where
    g: "(\<exists>t. game_loop 0 (fst (initialize_game_cli ''Bob'')) (snd (initialize_game_cli ''Bob'')) ?cs
                = Awaiting t q rooms3)
         \<or> (\<exists>e. game_loop 0 (fst (initialize_game_cli ''Bob'')) (snd (initialize_game_cli ''Bob'')) ?cs
                = Returned e q rooms3)"
    by blast
  have cli: "(\<exists>t. game_loop 0 (fst (initialize_game_cli ''Bob'')) (snd (initialize_game_cli ''Bob'')) ?cs
                = Awaiting t q rooms3)
       \<and> inventory q = [''Torch'', ''Rusty Key'', ''Old Book'', ''Note'']"
    using g by (auto simp: handler_defs start_defs)
  have add: "add_item ?full ''Crowbar'' = (?full, False)"
      "add_item ?one ''Note'' = (?one\<lparr>inventory := [''Torch'', ''Note'']\<rparr>, True)"
    using thm1 thm2 by (simp_all add: prod_eq_iff add_item_def)
  from lib r web cli add show ?thesis by auto
qed

text \<open>
  Claim C3. A move into the Armory while its locked flag is set succeeds exactly when
  the player holds the Rusty Key: the key is then removed from the inventory, the
  locked flag is cleared and the position becomes Armory. Without the key the move is
  rejected with the locked message, and the player and the rooms stay as they were. Both
  programs do so; the web version also counts the turn.
\<close>

theorem C3_armory_gate:
  assumes "rooms (position p) = Some room" and "exits room dir = Some ''Armory''"
    and "rooms ''Armory'' = Some armory" and "locked armory"
  shows "move_player p rooms dir =
          (if has_item p ''Rusty Key'' then
             Inr (p\<lparr>position := ''Armory'',
                    inventory := remove1 ''Rusty Key'' (inventory p),
                    visited_rooms := finsert ''Armory'' (visited_rooms p),
                    turns := turns p + 1\<rparr>,
                  rooms(''Armory'' \<mapsto> armory\<lparr>locked := False\<rparr>), True, [UnlockArmory])
           else Inr (p, rooms, False, [ArmoryNeedsKey]))
       \<and> (position q = position p \<and> parse_direction typed = Some dir \<longrightarrow>
          move_player_cli q rooms typed =
            (if has_item q ''Rusty Key'' then
               Inr (q\<lparr>position := ''Armory'',
                      inventory := remove1 ''Rusty Key'' (inventory q),
                      visited_rooms := finsert ''Armory'' (visited_rooms q)\<rparr>,
                    rooms(''Armory'' \<mapsto> armory\<lparr>locked := False\<rparr>),
                    [UnlockArmory, MovedTo ''Armory''])
             else Inr (q, rooms, [ArmoryNeedsKey])))"
proof -
  have "exit_list room \<noteq> []"
    using assms(2) by (cases dir) (simp_all add: exit_list_def)
  then show ?thesis
    using assms by (simp add: move_player_def move_player_cli_def remove_item_def has_item_def)
qed

theorem C3_armory_gate_witness:
  "move_player \<lparr>name = Some ''Ada'', position = ''Courtyard'', inventory = [''Torch'', ''Rusty Key''],
                health = 100, visited_rooms = {|''Entrance Hall'', ''Courtyard''|}, turns = 1\<rparr>
      initialize_game West
   = Inr (\<lparr>name = Some ''Ada'', position = ''Armory'', inventory = [''Torch''],
            health = 100, visited_rooms = {|''Armory'', ''Entrance Hall'', ''Courtyard''|}, turns = 2\<rparr>,
          initialize_game(''Armory'' \<mapsto> \<lparr>exits = [East \<mapsto> ''Courtyard''], items = [''Sword''],
                                          locked = False, dark = False\<rparr>),
          True, [UnlockArmory])
   \<and> move_player_cli \<lparr>name = Some ''Bob'', position = ''Courtyard'', inventory = [''Torch''],
                health = 100, visited_rooms = {|''Entrance Hall'', ''Courtyard''|}\<rparr>
      initialize_game ''west''
   = Inr (\<lparr>name = Some ''Bob'', position = ''Courtyard'', inventory = [''Torch''],
                health = 100, visited_rooms = {|''Entrance Hall'', ''Courtyard''|}\<rparr>,
          initialize_game, [ArmoryNeedsKey])"
  using C3_armory_gate [of initialize_game
      "\<lparr>name = Some ''Ada'', position = ''Courtyard'', inventory = [''Torch'', ''Rusty Key''],
                health = 100, visited_rooms = {|''Entrance Hall'', ''Courtyard''|}, turns = 1\<rparr>"
      "\<lparr>exits = [South \<mapsto> ''Entrance Hall'', North \<mapsto> ''Guard Tower'',
                   East \<mapsto> ''Kitchen'', West \<mapsto> ''Armory''],
          items = [], locked = False, dark = False\<rparr>"
      West
      "\<lparr>exits = [East \<mapsto> ''Courtyard''], items = [''Sword''], locked = True, dark = False\<rparr>"
      "\<lparr>name = Some ''Bob'', position = ''Courtyard'', inventory = [''Torch''],
                health = 100, visited_rooms = {|''Entrance Hall'', ''Courtyard''|}\<rparr>"
      "''west''"]
  by (simp add: initialize_game_def has_item_def parse_direction_def)

text \<open>
  The two turn counters on claim C4. In the console game three commands that are no
  moves bring the loop's counter to 3. In the web game a player saved after one move
  and loaded into another session has the turn count 1 after a sequence of actions
  without any move.
\<close>

theorem C4_turn_counter_counterexample:
  "game_loop 0 (fst (initialize_game_cli ''Ada'')) (snd (initialize_game_cli ''Ada''))
     [CmdLook, CmdInvalid, CmdHelp]
   = Awaiting 3
       \<lparr>name = Some ''Ada'', position = ''Entrance Hall'', inventory = [], health = 100,
        visited_rooms = {|''Entrance Hall''|}\<rparr> initialize_game
   \<and> run \<lparr>name = Some ''Ada'', position = ''Entrance Hall'', inventory = [], health = 100,
           visited_rooms = {|''Entrance Hall''|}, turns = 0\<rparr> initialize_game [Move North]
     = Inr (\<lparr>name = Some ''Ada'', position = ''Courtyard'', inventory = [], health = 100,
              visited_rooms = {|''Courtyard'', ''Entrance Hall''|}, turns = 1\<rparr>,
            initialize_game, [(Move North, Some True)])
   \<and> to_dict (\<lambda>visited. [''Entrance Hall'', ''Courtyard''])
       \<lparr>name = Some ''Ada'', position = ''Courtyard'', inventory = [], health = 100,
        visited_rooms = {|''Courtyard'', ''Entrance Hall''|}, turns = 1\<rparr>
     = Inr \<lparr>d_name = ''Ada'', d_position = ''Courtyard'', d_inventory = [], d_health = 100,
            d_visited_rooms = [''Entrance Hall'', ''Courtyard''], d_turns = 1\<rparr>
   \<and> run \<lparr>name = Some ''Bob'', position = ''Entrance Hall'', inventory = [], health = 100,
           visited_rooms = {|''Entrance Hall''|}, turns = 0\<rparr> initialize_game
       [Load \<lparr>d_name = ''Ada'', d_position = ''Courtyard'', d_inventory = [], d_health = 100,
              d_visited_rooms = [''Entrance Hall'', ''Courtyard''], d_turns = 1\<rparr>, Look]
     = Inr (\<lparr>name = Some ''Ada'', position = ''Courtyard'', inventory = [], health = 100,
              visited_rooms = {|''Courtyard'', ''Entrance Hall''|}, turns = 1\<rparr>,
            initialize_game,
            [(Load \<lparr>d_name = ''Ada'', d_position = ''Courtyard'', d_inventory = [], d_health = 100,
                    d_visited_rooms = [''Entrance Hall'', ''Courtyard''], d_turns = 1\<rparr>, None),
             (Look, None)])
   \<and> successful_moves
       [(Load \<lparr>d_name = ''Ada'', d_position = ''Courtyard'', d_inventory = [], d_health = 100,
               d_visited_rooms = [''Entrance Hall'', ''Courtyard''], d_turns = 1\<rparr>, None),
        (Look, None)] = 0"
  by (simp add: start_defs handler_defs to_dict_def from_dict_def successful_moves_def) auto

text \<open>
  Claim C4, as the two programs have it. In the web game the turn counter of the player
  goes up by one on each successful Move and on no other handler action, so that after
  any sequence of Move, Look, Take, Use and Talk actions of a new game it equals the
  number of successful Moves of that sequence; loading a save sets it to the saved
  count. In the console game the turn counter is a local variable of the game loop and
  goes up by one on every command read, whatever the command.
\<close>

theorem C4_turn_counter:
  "(handler_action a \<and> perform a p rooms = Inr (p1, rooms1, r) \<longrightarrow>
      turns p1 = turns p + (if successful_move (a, r) then 1 else 0))
   \<and> perform (Load data) p rooms = Inr (from_dict data, rooms, None)
   \<and> turns (from_dict data) = d_turns data
   \<and> (Player_web n = Some p0 \<and> list_all handler_action as \<longrightarrow>
        (\<exists>p' rooms' l. run p0 initialize_game as = Inr (p', rooms', l)
           \<and> turns p' = int (successful_moves l)))
   \<and> (game_loop t q rooms2 cs = Awaiting t' q' rooms2' \<longrightarrow> t' = t + int (length cs))"
proof -
  have web: "\<exists>p' rooms' l. run p0 initialize_game as = Inr (p', rooms', l)
           \<and> turns p' = int (successful_moves l)"
    if start: "Player_web n = Some p0" and free: "list_all handler_action as"
  proof -
    from run_inv [OF init_web_inv [OF start] free] obtain p' rooms' l
      where r: "run p0 initialize_game as = Inr (p', rooms', l)" by blast
    have "turns p0 = 0" using start by (auto simp: Player_web_def split: if_splits)
    with run_turns [OF r free] r show ?thesis by simp
  qed
  have load: "perform (Load data) p rooms = Inr (from_dict data, rooms, None)"
    by (simp add: perform_def)
  from web load from_dict_turns [of data] perform_turns [of a p rooms p1 rooms1 r]
    game_loop_counts [of t q rooms2 cs t' q' rooms2']
  show ?thesis by blast
qed

theorem C4_turn_counter_witness:
  "perform (Move North) \<lparr>name = Some ''Ada'', position = ''Entrance Hall'', inventory = [],
              health = 100, visited_rooms = {|''Entrance Hall''|}, turns = 0\<rparr> initialize_game
     = Inr (\<lparr>name = Some ''Ada'', position = ''Courtyard'', inventory = [], health = 100,
              visited_rooms = {|''Courtyard'', ''Entrance Hall''|}, turns = 1\<rparr>,
            initialize_game, Some True)
   \<and> (\<exists>p' rooms' l. run \<lparr>name = Some ''Ada'', position = ''Entrance Hall'', inventory = [],
              health = 100, visited_rooms = {|''Entrance Hall''|}, turns = 0\<rparr> initialize_game
              [Move North, Look, Move West, Take ''Torch'', Move South] = Inr (p', rooms', l)
         \<and> turns p' = 2 \<and> successful_moves l = 2)
   \<and> game_loop 0 (fst (initialize_game_cli ''Bob'')) (snd (initialize_game_cli ''Bob''))
        [CmdLook, CmdMove ''up'']
      = Awaiting 2 (fst (initialize_game_cli ''Bob'')) (snd (initialize_game_cli ''Bob''))"
proof -
  let ?p0 = "\<lparr>name = Some ''Ada'', position = ''Entrance Hall'', inventory = [], health = 100,
              visited_rooms = {|''Entrance Hall''|}, turns = 0\<rparr>"
  let ?p1 = "\<lparr>name = Some ''Ada'', position = ''Courtyard'', inventory = [], health = 100,
              visited_rooms = {|''Courtyard'', ''Entrance Hall''|}, turns = 1\<rparr>"
  let ?as = "[Move North, Look, Move West, Take ''Torch'', Move South]"
  let ?b = "fst (initialize_game_cli ''Bob'')"
  let ?rb = "snd (initialize_game_cli ''Bob'')"
  note inst = C4_turn_counter [of "Move North" ?p0 initialize_game ?p1 initialize_game "Some True"
      "\<lparr>d_name = ''Ada'', d_position = ''Courtyard'', d_inventory = [], d_health = 100,
       d_visited_rooms = [''Entrance Hall'', ''Courtyard''], d_turns = 1\<rparr>"
      "''Ada''" ?p0 ?as 0 ?b ?rb "[CmdLook, CmdMove ''up'']" 2 ?b ?rb]
  have start: "Player_web ''Ada'' = Some ?p0" "list_all handler_action ?as"
    "handler_action (Move North)"
    by (simp_all add: Player_web_def)
  have move: "perform (Move North) ?p0 initialize_game = Inr (?p1, initialize_game, Some True)"
    by (simp add: perform_def move_player_def initialize_game_def)
  have loop: "game_loop 0 ?b ?rb [CmdLook, CmdMove ''up''] = Awaiting 2 ?b ?rb"
    by (simp add: start_defs handler_defs)
  from inst start obtain p' rooms' l where r: "run ?p0 initialize_game ?as = Inr (p', rooms', l)"
    and t: "turns p' = int (successful_moves l)" by blast
  have "successful_moves l = 2"
    using r by (auto simp: handler_defs initialize_game_def successful_moves_def)
  with r t move loop inst show ?thesis by simp
qed

text \<open>
  The health decay on claim C5, from the start of a game. In the web game 51 moves
  succeed and a Look follows: the turn count is 51 and the health still 100. In the
  console game 55 moves succeed, the last five of them past turn 50, which leaves the
  health at 75; the command of turn 56 takes the Golden Crown and wins, or quits, and
  the health is still 75, and the command after it is not read. And 51 looks, with no
  move at all, bring the console health to 95.
\<close>

theorem C5_health_decay_counterexample:
  "run \<lparr>name = Some ''Ada'', position = ''Entrance Hall'', inventory = [], health = 100,
         visited_rooms = {|''Entrance Hall''|}, turns = 0\<rparr> initialize_game
     (concat (replicate 25 [Move North, Move South]) @ [Move North, Look])
   = Inr (\<lparr>name = Some ''Ada'', position = ''Courtyard'', inventory = [], health = 100,
            visited_rooms = {|''Courtyard'', ''Entrance Hall''|}, turns = 51\<rparr>,
          initialize_game,
          concat (replicate 25 [(Move North, Some True), (Move South, Some True)])
            @ [(Move North, Some True), (Look, None)])
   \<and> game_loop 0 (fst (initialize_game_cli ''Ada'')) (snd (initialize_game_cli ''Ada''))
       (concat (replicate 25 [CmdMove ''north'', CmdMove ''south''])
         @ [CmdMove ''north'', CmdMove ''east'', CmdMove ''south'', CmdMove ''east'',
            CmdMove ''north''])
     = Awaiting 55
         \<lparr>name = Some ''Ada'', position = ''Throne Room'', inventory = [], health = 75,
          visited_rooms = {|''Throne Room'', ''Secret Passage'', ''Dungeon'', ''Kitchen'',
                            ''Courtyard'', ''Entrance Hall''|}\<rparr>
         initialize_game
   \<and> game_loop 0 (fst (initialize_game_cli ''Ada'')) (snd (initialize_game_cli ''Ada''))
       ((concat (replicate 25 [CmdMove ''north'', CmdMove ''south''])
         @ [CmdMove ''north'', CmdMove ''east'', CmdMove ''south'', CmdMove ''east'',
            CmdMove ''north''])
        @ [CmdTake ''Golden Crown'', CmdLook])
     = Returned Won
         \<lparr>name = Some ''Ada'', position = ''Throne Room'', inventory = [''Golden Crown''],
          health = 75,
          visited_rooms = {|''Throne Room'', ''Secret Passage'', ''Dungeon'', ''Kitchen'',
                            ''Courtyard'', ''Entrance Hall''|}\<rparr>
         (initialize_game(''Throne Room'' \<mapsto>
            \<lparr>exits = [South \<mapsto> ''Secret Passage''], items = [], locked = False,
             dark = False\<rparr>))
   \<and> game_loop 0 (fst (initialize_game_cli ''Ada'')) (snd (initialize_game_cli ''Ada''))
       ((concat (replicate 25 [CmdMove ''north'', CmdMove ''south''])
         @ [CmdMove ''north'', CmdMove ''east'', CmdMove ''south'', CmdMove ''east'',
            CmdMove ''north''])
        @ [CmdQuit, CmdLook])
     = Returned Quit
         \<lparr>name = Some ''Ada'', position = ''Throne Room'', inventory = [], health = 75,
          visited_rooms = {|''Throne Room'', ''Secret Passage'', ''Dungeon'', ''Kitchen'',
                            ''Courtyard'', ''Entrance Hall''|}\<rparr>
         initialize_game
   \<and> game_loop 0 (fst (initialize_game_cli ''Ada'')) (snd (initialize_game_cli ''Ada''))
       (replicate 51 CmdLook)
     = Awaiting 51
         \<lparr>name = Some ''Ada'', position = ''Entrance Hall'', inventory = [], health = 95,
          visited_rooms = {|''Entrance Hall''|}\<rparr>
         initialize_game"
proof -
  have web: "run \<lparr>name = Some ''Ada'', position = ''Entrance Hall'', inventory = [], health = 100,
         visited_rooms = {|''Entrance Hall''|}, turns = 0\<rparr> initialize_game
     (concat (replicate 25 [Move North, Move South]) @ [Move North, Look])
   = Inr (\<lparr>name = Some ''Ada'', position = ''Courtyard'', inventory = [], health = 100,
            visited_rooms = {|''Courtyard'', ''Entrance Hall''|}, turns = 51\<rparr>,
          initialize_game,
          concat (replicate 25 [(Move North, Some True), (Move South, Some True)])
            @ [(Move North, Some True), (Look, None)])"
    by (simp add: initialize_game_def handler_defs eval_nat_numeral) auto
  have won: "game_loop 55
         \<lparr>name = Some ''Ada'', position = ''Throne Room'', inventory = [], health = 75,
          visited_rooms = {|''Throne Room'', ''Secret Passage'', ''Dungeon'', ''Kitchen'',
                            ''Courtyard'', ''Entrance Hall''|}\<rparr>
         initialize_game [CmdTake ''Golden Crown'', CmdLook]
     = Returned Won
         \<lparr>name = Some ''Ada'', position = ''Throne Room'', inventory = [''Golden Crown''],
          health = 75,
          visited_rooms = {|''Throne Room'', ''Secret Passage'', ''Dungeon'', ''Kitchen'',
                            ''Courtyard'', ''Entrance Hall''|}\<rparr>
         (initialize_game(''Throne Room'' \<mapsto>
            \<lparr>exits = [South \<mapsto> ''Secret Passage''], items = [], locked = False,
             dark = False\<rparr>))"
    by (simp add: initialize_game_def handler_defs)
  have quit: "game_loop 55
         \<lparr>name = Some ''Ada'', position = ''Throne Room'', inventory = [], health = 75,
          visited_rooms = {|''Throne Room'', ''Secret Passage'', ''Dungeon'', ''Kitchen'',
                            ''Courtyard'', ''Entrance Hall''|}\<rparr>
         initialize_game [CmdQuit, CmdLook]
     = Returned Quit
         \<lparr>name = Some ''Ada'', position = ''Throne Room'', inventory = [], health = 75,
          visited_rooms = {|''Throne Room'', ''Secret Passage'', ''Dungeon'', ''Kitchen'',
                            ''Courtyard'', ''Entrance Hall''|}\<rparr>
         initialize_game"
    by (simp add: initialize_game_def handler_defs)
  have looks: "game_loop 0 (fst (initialize_game_cli ''Ada'')) (snd (initialize_game_cli ''Ada''))
       (replicate 50 CmdLook @ [CmdLook])
     = Awaiting 51
         \<lparr>name = Some ''Ada'', position = ''Entrance Hall'', inventory = [], health = 95,
          visited_rooms = {|''Entrance Hall''|}\<rparr>
         initialize_game"
    by (simp add: start_defs handler_defs looks_below_50)
  have "replicate 51 CmdLook = replicate 50 CmdLook @ [CmdLook]"
    using replicate_add [of 50 1 CmdLook] by simp
  with looks web won quit fifty_five_moves game_loop_append [OF fifty_five_moves]
  show ?thesis by simp
qed

text \<open>
  Claim C5, as the two programs have it. In the console game the turn counter is the
  loop's own and counts every command read. In a pass of the loop whose turn number
  exceeds 50, a command that does not quit and after which the win check fails is
  followed by taking 5 from the health its handler left; when the health is then 0 or
  below the loop returns with a loss, and whatever commands follow are not processed. A
  win or a quit ends the loop without the reduction. The web game has no decay and no
  loss: whatever handler actions a new player performs, the health stays 100.
\<close>

theorem C5_health_decay:
  "(rooms (position p) = Some room \<and> dispatch c p rooms = Inr (Some (p1, rooms1))
      \<and> \<not> fst (check_win_condition p1) \<and> 50 < t + 1 \<longrightarrow>
        game_loop t p rooms (c # cs) =
           (if health p1 - 5 \<le> 0 then Returned Lost (p1\<lparr>health := health p1 - 5\<rparr>) rooms1
            else game_loop (t + 1) (p1\<lparr>health := health p1 - 5\<rparr>) rooms1 cs)
      \<and> (health p1 - 5 \<le> 0 \<longrightarrow>
            game_loop t p rooms ((c # cs) @ later)
              = Returned Lost (p1\<lparr>health := health p1 - 5\<rparr>) rooms1))
   \<and> (rooms (position p) = Some room \<and> dispatch c p rooms = Inr (Some (p1, rooms1))
      \<and> fst (check_win_condition p1) \<longrightarrow>
        game_loop t p rooms (c # cs) = Returned Won p1 rooms1)
   \<and> (rooms (position p) = Some room \<longrightarrow>
        game_loop t p rooms (CmdQuit # cs) = Returned Quit p rooms)
   \<and> (game_loop t p rooms cs = Awaiting t' p' rooms' \<longrightarrow> t' = t + int (length cs))
   \<and> (Player_web n = Some p0 \<and> list_all handler_action as \<longrightarrow>
        (\<exists>pw roomsw l. run p0 initialize_game as = Inr (pw, roomsw, l) \<and> health pw = 100))"
proof -
  have decay: "game_loop t p rooms (c # cs) =
           (if health p1 - 5 \<le> 0 then Returned Lost (p1\<lparr>health := health p1 - 5\<rparr>) rooms1
            else game_loop (t + 1) (p1\<lparr>health := health p1 - 5\<rparr>) rooms1 cs)
      \<and> (health p1 - 5 \<le> 0 \<longrightarrow>
            game_loop t p rooms ((c # cs) @ later)
              = Returned Lost (p1\<lparr>health := health p1 - 5\<rparr>) rooms1)"
    if a: "rooms (position p) = Some room" "dispatch c p rooms = Inr (Some (p1, rooms1))"
      "\<not> fst (check_win_condition p1)" "50 < t + 1"
  proof -
    have step: "game_loop t p rooms (c # cs) =
           (if health p1 - 5 \<le> 0 then Returned Lost (p1\<lparr>health := health p1 - 5\<rparr>) rooms1
            else game_loop (t + 1) (p1\<lparr>health := health p1 - 5\<rparr>) rooms1 cs)"
      using a by (simp add: Let_def)
    have "game_loop t p rooms ((c # cs) @ later)
              = Returned Lost (p1\<lparr>health := health p1 - 5\<rparr>) rooms1"
      if "health p1 - 5 \<le> 0"
      using step that game_loop_stops [of t p rooms "c # cs" Lost _ rooms1 later] by simp
    with step show ?thesis by blast
  qed
  have won: "game_loop t p rooms (c # cs) = Returned Won p1 rooms1"
    if "rooms (position p) = Some room" "dispatch c p rooms = Inr (Some (p1, rooms1))"
      "fst (check_win_condition p1)"
    using that by simp
  have quit: "game_loop t p rooms (CmdQuit # cs) = Returned Quit p rooms"
    if "rooms (position p) = Some room"
    using that by (simp add: dispatch_def)
  have web: "\<exists>pw roomsw l. run p0 initialize_game as = Inr (pw, roomsw, l) \<and> health pw = 100"
    if start: "Player_web n = Some p0" and free: "list_all handler_action as"
  proof -
    from run_inv [OF init_web_inv [OF start] free] obtain pw roomsw l
      where r: "run p0 initialize_game as = Inr (pw, roomsw, l)" by blast
    have "health p0 = 100" using start by (auto simp: Player_web_def split: if_splits)
    from run_health [OF r free this] r show ?thesis by blast
  qed
  from decay won quit web game_loop_counts [of t p rooms cs t' p' rooms']
  show ?thesis by blast
qed

theorem C5_health_decay_witness:
  "game_loop 50
     \<lparr>name = Some ''Ada'', position = ''Courtyard'', inventory = [], health = 5,
      visited_rooms = {|''Courtyard''|}\<rparr> initialize_game ([CmdTalk, CmdLook] @ [CmdMove ''north''])
   = Returned Lost
     \<lparr>name = Some ''Ada'', position = ''Courtyard'', inventory = [], health = 0,
      visited_rooms = {|''Courtyard''|}\<rparr> initialize_game
   \<and> game_loop 50
     \<lparr>name = Some ''Ada'', position = ''Courtyard'', inventory = [], health = 100,
      visited_rooms = {|''Courtyard''|}\<rparr> initialize_game [CmdTalk]
   = Awaiting 51
     \<lparr>name = Some ''Ada'', position = ''Courtyard'', inventory = [], health = 95,
      visited_rooms = {|''Courtyard''|}\<rparr> initialize_game
   \<and> game_loop 50
     \<lparr>name = Some ''Ada'', position = ''Courtyard'', inventory = [], health = 100,
      visited_rooms = {|''Courtyard''|}\<rparr> initialize_game [CmdQuit]
   = Returned Quit
     \<lparr>name = Some ''Ada'', position = ''Courtyard'', inventory = [], health = 100,
      visited_rooms = {|''Courtyard''|}\<rparr> initialize_game
   \<and> game_loop 50
     \<lparr>name = Some ''Ada'', position = ''Throne Room'', inventory = [''Golden Crown''],
      health = 100, visited_rooms = {|''Throne Room''|}\<rparr> initialize_game [CmdTalk]
   = Returned Won
     \<lparr>name = Some ''Ada'', position = ''Throne Room'', inventory = [''Golden Crown''],
      health = 100, visited_rooms = {|''Throne Room''|}\<rparr> initialize_game
   \<and> (\<exists>pw roomsw l.
        run \<lparr>name = Some ''Ada'', position = ''Entrance Hall'', inventory = [], health = 100,
             visited_rooms = {|''Entrance Hall''|}, turns = 0\<rparr> initialize_game
          [Move North, Move East, Take ''Healing Herb'', Use ''Healing Herb'', Talk]
          = Inr (pw, roomsw, l)
        \<and> health pw = 100)"
proof -
  let ?yard = "\<lparr>exits = [South \<mapsto> ''Entrance Hall'', North \<mapsto> ''Guard Tower'',
                   East \<mapsto> ''Kitchen'', West \<mapsto> ''Armory''],
          items = [], locked = False, dark = False\<rparr>"
  let ?throne = "\<lparr>exits = [South \<mapsto> ''Secret Passage''], items = [''Golden Crown''],
          locked = False, dark = False\<rparr>"
  let ?weak = "\<lparr>name = Some ''Ada'', position = ''Courtyard'', inventory = [], health = 5,
        visited_rooms = {|''Courtyard''|}\<rparr>"
  let ?fit = "\<lparr>name = Some ''Ada'', position = ''Courtyard'', inventory = [], health = 100,
        visited_rooms = {|''Courtyard''|}\<rparr>"
  let ?king = "\<lparr>name = Some ''Ada'', position = ''Throne Room'', inventory = [''Golden Crown''],
      health = 100, visited_rooms = {|''Throne Room''|}\<rparr>"
  let ?p0 = "\<lparr>name = Some ''Ada'', position = ''Entrance Hall'', inventory = [], health = 100,
             visited_rooms = {|''Entrance Hall''|}, turns = 0\<rparr>"
  let ?as = "[Move North, Move East, Take ''Healing Herb'', Use ''Healing Herb'', Talk]"
  have facts: "initialize_game ''Courtyard'' = Some ?yard"
      "initialize_game ''Throne Room'' = Some ?throne"
      "dispatch CmdTalk ?weak initialize_game = Inr (Some (?weak, initialize_game))"
      "dispatch CmdTalk ?fit initialize_game = Inr (Some (?fit, initialize_game))"
      "dispatch CmdTalk ?king initialize_game = Inr (Some (?king, initialize_game))"
      "\<not> fst (check_win_condition ?weak)" "\<not> fst (check_win_condition ?fit)"
      "fst (check_win_condition ?king)"
      "Player_web ''Ada'' = Some ?p0" "list_all handler_action ?as"
    by (simp_all add: initialize_game_def dispatch_def talk_to_character_def
        check_win_condition_def has_item_def Player_web_def)
  from C5_health_decay [of initialize_game ?weak ?yard CmdTalk ?weak initialize_game 50
      "[CmdLook]" "[CmdMove ''north'']" 50 ?weak initialize_game "''Ada''" ?p0 ?as]
    C5_health_decay [of initialize_game ?fit ?yard CmdTalk ?fit initialize_game 50
      "[]" "[]" 50 ?fit initialize_game "''Ada''" ?p0 ?as]
    C5_health_decay [of initialize_game ?king ?throne CmdTalk ?king initialize_game 50
      "[]" "[]" 50 ?king initialize_game "''Ada''" ?p0 ?as]
    facts
  show ?thesis by simp
qed

text \<open>
  The earlier gates of the Take handler on claim C6. A web player collects four items,
  the last of them the Sword inside the Armory, and is saved; loaded into a fresh
  session, the player stands in the Armory with four items while the Armory of that
  session is locked and holds its Sword: the Take answers that the door is locked, not
  that the bag is full. In a dark Dungeon that holds an item the Take of a player with
  four items and no Torch answers that it is too dark.
\<close>

theorem C6_bag_full_counterexample:
  "map_sum id fst
     (run \<lparr>name = Some ''Ada'', position = ''Entrance Hall'', inventory = [], health = 100,
           visited_rooms = {|''Entrance Hall''|}, turns = 0\<rparr> initialize_game
        [Take ''Torch'', Move East, Take ''Rusty Key'', Take ''Old Book'', Move North,
         Take ''Note'', Move South, Move West, Move North, Move West, Take ''Sword''])
   = Inr \<lparr>name = Some ''Ada'', position = ''Armory'',
          inventory = [''Torch'', ''Old Book'', ''Note'', ''Sword''], health = 100,
          visited_rooms = {|''Armory'', ''Courtyard'', ''Study'', ''Library'', ''Entrance Hall''|},
          turns = 6\<rparr>
   \<and> to_dict (\<lambda>visited. [''Entrance Hall'', ''Library'', ''Study'', ''Courtyard'', ''Armory''])
       \<lparr>name = Some ''Ada'', position = ''Armory'',
        inventory = [''Torch'', ''Old Book'', ''Note'', ''Sword''], health = 100,
        visited_rooms = {|''Armory'', ''Courtyard'', ''Study'', ''Library'', ''Entrance Hall''|},
        turns = 6\<rparr>
     = Inr \<lparr>d_name = ''Ada'', d_position = ''Armory'',
            d_inventory = [''Torch'', ''Old Book'', ''Note'', ''Sword''], d_health = 100,
            d_visited_rooms = [''Entrance Hall'', ''Library'', ''Study'', ''Courtyard'', ''Armory''],
            d_turns = 6\<rparr>
   \<and> perform
       (Load \<lparr>d_name = ''Ada'', d_position = ''Armory'',
              d_inventory = [''Torch'', ''Old Book'', ''Note'', ''Sword''], d_health = 100,
              d_visited_rooms = [''Entrance Hall'', ''Library'', ''Study'', ''Courtyard'', ''Armory''],
              d_turns = 6\<rparr>)
       \<lparr>name = Some ''Bob'', position = ''Entrance Hall'', inventory = [], health = 100,
        visited_rooms = {|''Entrance Hall''|}, turns = 0\<rparr> initialize_game
     = Inr (\<lparr>name = Some ''Ada'', position = ''Armory'',
              inventory = [''Torch'', ''Old Book'', ''Note'', ''Sword''], health = 100,
              visited_rooms = {|''Armory'', ''Courtyard'', ''Study'', ''Library'', ''Entrance Hall''|},
              turns = 6\<rparr>, initialize_game, None)
   \<and> initialize_game ''Armory''
     = Some \<lparr>exits = [East \<mapsto> ''Courtyard''], items = [''Sword''], locked = True, dark = False\<rparr>
   \<and> pick_up_item
       \<lparr>name = Some ''Ada'', position = ''Armory'',
        inventory = [''Torch'', ''Old Book'', ''Note'', ''Sword''], health = 100,
        visited_rooms = {|''Armory'', ''Courtyard'', ''Study'', ''Library'', ''Entrance Hall''|},
        turns = 6\<rparr> initialize_game ''Sword''
     = Inr (\<lparr>name = Some ''Ada'', position = ''Armory'',
              inventory = [''Torch'', ''Old Book'', ''Note'', ''Sword''], health = 100,
              visited_rooms = {|''Armory'', ''Courtyard'', ''Study'', ''Library'', ''Entrance Hall''|},
              turns = 6\<rparr>, initialize_game, False, [ArmoryDoorLocked])
   \<and> pick_up_item
       \<lparr>name = Some ''Ada'', position = ''Dungeon'',
        inventory = [''Crowbar'', ''Old Book'', ''Note'', ''Sword''], health = 100,
        visited_rooms = {|''Dungeon''|}, turns = 9\<rparr>
       (initialize_game(''Dungeon'' \<mapsto>
          \<lparr>exits = [North \<mapsto> ''Kitchen'', East \<mapsto> ''Secret Passage''],
           items = [''Healing Herb''], locked = False, dark = True\<rparr>)) ''Healing Herb''
     = Inr (\<lparr>name = Some ''Ada'', position = ''Dungeon'',
              inventory = [''Crowbar'', ''Old Book'', ''Note'', ''Sword''], health = 100,
              visited_rooms = {|''Dungeon''|}, turns = 9\<rparr>,
            initialize_game(''Dungeon'' \<mapsto>
              \<lparr>exits = [North \<mapsto> ''Kitchen'', East \<mapsto> ''Secret Passage''],
               items = [''Healing Herb''], locked = False, dark = True\<rparr>),
            False, [TooDark])"
  by (simp add: initialize_game_def handler_defs to_dict_def from_dict_def Player_web_def) auto

text \<open>
  Claim C6, as the handler has it. When a Take names an item that lies in the current
  room while the inventory holds four items, the items of the room and the inventory
  are left exactly as they were, and the action reports that the bag is full unless an
  earlier gate answers first: the locked door for a player inside the locked Armory,
  the darkness for a player in the dark Dungeon without the Torch. In a game played
  from its start, by any commands of the console game or any handler actions of the web
  game, neither gate answers first and the report is that the bag is full.
\<close>

theorem C6_bag_full:
  "(rooms (position p) = Some room \<and> item \<in> set (items room) \<and> length (inventory p) = 4
     \<longrightarrow> pick_up_item p rooms item =
           Inr (p, rooms, False,
                [if position p = ''Armory'' \<and> locked room then ArmoryDoorLocked
                 else if position p = ''Dungeon'' \<and> dark room \<and> \<not> has_item p ''Torch''
                   then TooDark
                 else BagFull]))
   \<and> (Player_web n1 = Some p0 \<and> list_all handler_action as
      \<and> run p0 initialize_game as = Inr (p1, rooms1, l)
      \<and> rooms1 (position p1) = Some room1 \<and> item1 \<in> set (items room1)
      \<and> length (inventory p1) = 4
     \<longrightarrow> pick_up_item p1 rooms1 item1 = Inr (p1, rooms1, False, [BagFull]))
   \<and> (game_loop 0 (fst (initialize_game_cli n2)) (snd (initialize_game_cli n2)) cs
        = Awaiting t q rooms2
      \<and> rooms2 (position q) = Some room2 \<and> item2 \<in> set (items room2)
      \<and> length (inventory q) = 4
     \<longrightarrow> pick_up_item q rooms2 item2 = Inr (q, rooms2, False, [BagFull]))"
proof -
  have gates: "pick_up_item p rooms item =
           Inr (p, rooms, False,
                [if position p = ''Armory'' \<and> locked room then ArmoryDoorLocked
                 else if position p = ''Dungeon'' \<and> dark room \<and> \<not> has_item p ''Torch''
                   then TooDark
                 else BagFull])"
    if "rooms (position p) = Some room" "item \<in> set (items room)" "length (inventory p) = 4"
  proof -
    have "items room \<noteq> []" using that(2) by auto
    then show ?thesis using that by (simp add: pick_up_item_def add_item_def)
  qed
  from gates
    inv_bag_full [OF run_reaches_inv, of n1 p0 as p1 rooms1 l room1 item1]
    inv_bag_full [OF game_loop_reaches_inv, of n2 cs t q rooms2 _ room2 item2]
  show ?thesis by blast
qed

theorem C6_bag_full_witness:
  "pick_up_item
       \<lparr>name = Some ''Ada'', position = ''Kitchen'',
        inventory = [''Torch'', ''Rusty Key'', ''Old Book'', ''Note''], health = 100,
        visited_rooms = {|''Kitchen''|}\<rparr> initialize_game ''Healing Herb''
     = Inr (\<lparr>name = Some ''Ada'', position = ''Kitchen'',
        inventory = [''Torch'', ''Rusty Key'', ''Old Book'', ''Note''], health = 100,
        visited_rooms = {|''Kitchen''|}\<rparr>, initialize_game, False, [BagFull])
   \<and> (\<exists>p rooms l.
      run \<lparr>name = Some ''Ada'', position = ''Entrance Hall'', inventory = [], health = 100,
           visited_rooms = {|''Entrance Hall''|}, turns = 0\<rparr> initialize_game
        [Take ''Torch'', Move East, Take ''Rusty Key'', Take ''Old Book'', Move North,
         Take ''Note'', Move South, Move West, Move North, Move East] = Inr (p, rooms, l)
      \<and> inventory p = [''Torch'', ''Rusty Key'', ''Old Book'', ''Note'']
      \<and> position p = ''Kitchen''
      \<and> pick_up_item p rooms ''Healing Herb'' = Inr (p, rooms, False, [BagFull]))
   \<and> (\<exists>t q rooms2.
      game_loop 0 (fst (initialize_game_cli ''Bob'')) (snd (initialize_game_cli ''Bob''))
        [CmdTake ''Torch'', CmdMove ''east'', CmdTake ''Rusty Key'', CmdTake ''Old Book'',
         CmdMove ''north'', CmdTake ''Note'', CmdMove ''south'', CmdMove ''west'',
         CmdMove ''north'', CmdMove ''north''] = Awaiting t q rooms2
      \<and> inventory q = [''Torch'', ''Rusty Key'', ''Old Book'', ''Note'']
      \<and> position q = ''Guard Tower''
      \<and> pick_up_item q rooms2 ''Crowbar'' = Inr (q, rooms2, False, [BagFull]))"
proof -
  let ?k = "\<lparr>name = Some ''Ada'', position = ''Kitchen'',
        inventory = [''Torch'', ''Rusty Key'', ''Old Book'', ''Note''], health = 100,
        visited_rooms = {|''Kitchen''|}\<rparr>"
  let ?kitchen = "\<lparr>exits = [West \<mapsto> ''Courtyard'', South \<mapsto> ''Dungeon''],
          items = [''Healing Herb''], locked = False, dark = False\<rparr>"
  let ?tower = "\<lparr>exits = [South \<mapsto> ''Courtyard''], items = [''Crowbar''], locked = False,
          dark = False\<rparr>"
  let ?p0 = "\<lparr>name = Some ''Ada'', position = ''Entrance Hall'', inventory = [], health = 100,
           visited_rooms = {|''Entrance Hall''|}, turns = 0\<rparr>"
  let ?as = "[Take ''Torch'', Move East, Take ''Rusty Key'', Take ''Old Book'', Move North,
         Take ''Note'', Move South, Move West, Move North, Move East]"
  let ?cs = "[CmdTake ''Torch'', CmdMove ''east'', CmdTake ''Rusty Key'', CmdTake ''Old Book'',
         CmdMove ''north'', CmdTake ''Note'', CmdMove ''south'', CmdMove ''west'',
         CmdMove ''north'', CmdMove ''north'']"
  have start: "Player_web ''Ada'' = Some ?p0" "list_all handler_action ?as"
    by (simp_all add: Player_web_def)
  obtain p rooms l where r: "run ?p0 initialize_game ?as = Inr (p, rooms, l)"
    using run_inv [OF init_web_inv [OF start(1)] start(2)] by blast
  have web: "inventory p = [''Torch'', ''Rusty Key'', ''Old Book'', ''Note'']"
      "position p = ''Kitchen''" "rooms ''Kitchen'' = Some ?kitchen"
    using r by (auto simp: handler_defs initialize_game_def)
  obtain t q rooms2
    where g: "game_loop 0 (fst (initialize_game_cli ''Bob'')) (snd (initialize_game_cli ''Bob'')) ?cs
               = Awaiting t q rooms2"
    by (simp add: handler_defs start_defs)
  have cli: "inventory q = [''Torch'', ''Rusty Key'', ''Old Book'', ''Note'']"
      "position q = ''Guard Tower''" "rooms2 ''Guard Tower'' = Some ?tower"
    using g by (auto simp: handler_defs start_defs)
  have here: "initialize_game ''Kitchen'' = Some ?kitchen"
    by (simp add: initialize_game_def)
  from C6_bag_full [of initialize_game ?k ?kitchen "''Healing Herb''"
      "''Ada''" ?p0 ?as p rooms l ?kitchen "''Healing Herb''"
      "''Bob''" ?cs t q rooms2 ?tower "''Crowbar''"]
    start r web g cli here
  show ?thesis by (simp add: has_item_def)
qed

text \<open>
  The Dungeon of the game on claim C7: three moves from the start lead there without the
  Torch, and a Take then reports that there is nothing to pick up, not that it is too
  dark.
\<close>

theorem C7_dark_take_counterexample:
  "run \<lparr>name = Some ''Ada'', position = ''Entrance Hall'', inventory = [], health = 100,
         visited_rooms = {|''Entrance Hall''|}, turns = 0\<rparr> initialize_game
     [Move North, Move East, Move South]
   = Inr (\<lparr>name = Some ''Ada'', position = ''Dungeon'', inventory = [], health = 100,
            visited_rooms = {|''Dungeon'', ''Kitchen'', ''Courtyard'', ''Entrance Hall''|},
            turns = 3\<rparr>,
          initialize_game,
          [(Move North, Some True), (Move East, Some True), (Move South, Some True)])
   \<and> pick_up_item
       \<lparr>name = Some ''Ada'', position = ''Dungeon'', inventory = [], health = 100,
        visited_rooms = {|''Dungeon'', ''Kitchen'', ''Courtyard'', ''Entrance Hall''|},
        turns = 3\<rparr> initialize_game ''Torch''
     = Inr (\<lparr>name = Some ''Ada'', position = ''Dungeon'', inventory = [], health = 100,
              visited_rooms = {|''Dungeon'', ''Kitchen'', ''Courtyard'', ''Entrance Hall''|},
              turns = 3\<rparr>, initialize_game, False, [NothingToPickUp])"
  by (simp add: handler_defs initialize_game_def)

text \<open>
  Claim C7, as the handlers have it. In the dark Dungeon without the Torch, Look reports
  that it is too dark and changes nothing; Take changes nothing either, and reports that
  it is too dark when the Dungeon holds an item, and that there is nothing to pick up
  when it holds none. With the Torch, Look describes the room and Take goes on to the
  item named.
\<close>

theorem C7_darkness_gate:
  assumes "position p = ''Dungeon''" and "rooms ''Dungeon'' = Some room" and "dark room"
  shows "(\<not> has_item p ''Torch'' \<longrightarrow>
            look_around p rooms = Inr (p, rooms, [TooDark])
          \<and> pick_up_item p rooms item =
              Inr (p, rooms, False, [if items room = [] then NothingToPickUp else TooDark]))
       \<and> (has_item p ''Torch'' \<longrightarrow>
            look_around p rooms =
              Inr (p, rooms,
                   if items room \<noteq> [] then LookCarefully # map Flavor (filter flavoured (items room))
                   else [LookCarefully, NothingOfInterest])
          \<and> pick_up_item p rooms item =
              (if items room = [] then Inr (p, rooms, False, [NothingToPickUp])
               else if item \<notin> set (items room) then Inr (p, rooms, False, [NoSuchItemHere item])
               else if length (inventory p) < 4 then
                 Inr (p\<lparr>inventory := inventory p @ [item]\<rparr>,
                      rooms(''Dungeon'' \<mapsto> room\<lparr>items := remove1 item (items room)\<rparr>),
                      True, [PickedUp item])
               else Inr (p, rooms, False, [BagFull])))"
  using assms by (simp add: look_around_def pick_up_item_def add_item_def)

theorem C7_darkness_gate_witness:
  "look_around \<lparr>name = Some ''Ada'', position = ''Dungeon'', inventory = [], health = 100,
        visited_rooms = {|''Dungeon''|}\<rparr> initialize_game
     = Inr (\<lparr>name = Some ''Ada'', position = ''Dungeon'', inventory = [], health = 100,
        visited_rooms = {|''Dungeon''|}\<rparr>, initialize_game, [TooDark])
   \<and> pick_up_item \<lparr>name = Some ''Ada'', position = ''Dungeon'', inventory = [], health = 100,
        visited_rooms = {|''Dungeon''|}\<rparr> initialize_game ''Torch''
     = Inr (\<lparr>name = Some ''Ada'', position = ''Dungeon'', inventory = [], health = 100,
        visited_rooms = {|''Dungeon''|}\<rparr>, initialize_game, False, [NothingToPickUp])
   \<and> look_around \<lparr>name = Some ''Ada'', position = ''Dungeon'', inventory = [''Torch''],
        health = 100, visited_rooms = {|''Dungeon''|}\<rparr> initialize_game
     = Inr (\<lparr>name = Some ''Ada'', position = ''Dungeon'', inventory = [''Torch''],
        health = 100, visited_rooms = {|''Dungeon''|}\<rparr>, initialize_game,
        [LookCarefully, NothingOfInterest])
   \<and> pick_up_item \<lparr>name = Some ''Ada'', position = ''Dungeon'', inventory = [''Torch''],
        health = 100, visited_rooms = {|''Dungeon''|}\<rparr> initialize_game ''Torch''
     = Inr (\<lparr>name = Some ''Ada'', position = ''Dungeon'', inventory = [''Torch''],
        health = 100, visited_rooms = {|''Dungeon''|}\<rparr>, initialize_game, False,
        [NothingToPickUp])"
  using C7_darkness_gate [of "\<lparr>name = Some ''Ada'', position = ''Dungeon'', inventory = [],
        health = 100, visited_rooms = {|''Dungeon''|}\<rparr>" initialize_game
      "\<lparr>exits = [North \<mapsto> ''Kitchen'', East \<mapsto> ''Secret Passage''],
          items = [], locked = False, dark = True\<rparr>" "''Torch''"]
    C7_darkness_gate [of "\<lparr>name = Some ''Ada'', position = ''Dungeon'', inventory = [''Torch''],
        health = 100, visited_rooms = {|''Dungeon''|}\<rparr>" initialize_game
      "\<lparr>exits = [North \<mapsto> ''Kitchen'', East \<mapsto> ''Secret Passage''],
          items = [], locked = False, dark = True\<rparr>" "''Torch''"]
  by (simp add: initialize_game_def has_item_def)

text \<open>
  Claim C9. For a player with a non-empty name, \<open>to_dict\<close> followed by
  \<open>from_dict\<close> gives back the player: the same name, position, inventory in the same
  order, health, set of visited rooms and turns, in whatever order the visited rooms
  were listed.
\<close>

theorem C9_round_trip:
  assumes "name p = Some n" and "n \<noteq> []"
    and "fset_of_list (list_of (visited_rooms p)) = visited_rooms p"
  shows "\<exists>d. to_dict list_of p = Inr d \<and> from_dict d = p"
  using assms by (simp add: to_dict_def from_dict_def Player_web_def)

theorem C9_round_trip_witness:
  "from_dict
     \<lparr>d_name = ''Ada'', d_position = ''Library'', d_inventory = [''Torch'', ''Rusty Key''],
      d_health = 85, d_visited_rooms = [''Entrance Hall'', ''Library''], d_turns = 17\<rparr>
   = \<lparr>name = Some ''Ada'', position = ''Library'', inventory = [''Torch'', ''Rusty Key''],
      health = 85, visited_rooms = {|''Library'', ''Entrance Hall''|}, turns = 17\<rparr>
   \<and> (\<exists>d. to_dict sorted_list_of_fset
            \<lparr>name = Some ''Ada'', position = ''Library'', inventory = [''Torch'', ''Rusty Key''],
             health = 85, visited_rooms = {|''Library'', ''Entrance Hall''|}, turns = 17\<rparr> = Inr d
          \<and> from_dict d =
            \<lparr>name = Some ''Ada'', position = ''Library'', inventory = [''Torch'', ''Rusty Key''],
             health = 85, visited_rooms = {|''Library'', ''Entrance Hall''|}, turns = 17\<rparr>)"
  using C9_round_trip [of
      "\<lparr>name = Some ''Ada'', position = ''Library'', inventory = [''Torch'', ''Rusty Key''],
        health = 85, visited_rooms = {|''Library'', ''Entrance Hall''|}, turns = 17\<rparr>"
      "''Ada''" sorted_list_of_fset]
  by (simp add: from_dict_def Player_web_def) blast

text \<open>
  The Load of the web game on claim C10. A player unlocks the Armory, enters it and is
  saved there; loaded into a fresh session, the player stands in the Armory while the
  Armory of that session is still locked, and a Take answers with the locked-Armory
  message.
\<close>

theorem C10_armory_open_inside_counterexample:
  "run \<lparr>name = Some ''Ada'', position = ''Entrance Hall'', inventory = [], health = 100,
         visited_rooms = {|''Entrance Hall''|}, turns = 0\<rparr> initialize_game
      [Move East, Take ''Rusty Key'', Move West, Move North, Move West]
   = Inr (\<lparr>name = Some ''Ada'', position = ''Armory'', inventory = [], health = 100,
            visited_rooms = {|''Armory'', ''Courtyard'', ''Library'', ''Entrance Hall''|},
            turns = 4\<rparr>,
          initialize_game
            (''Library'' \<mapsto> \<lparr>exits = [West \<mapsto> ''Entrance Hall'', North \<mapsto> ''Study''],
                              items = [''Old Book''], locked = False, dark = False\<rparr>,
             ''Armory'' \<mapsto> \<lparr>exits = [East \<mapsto> ''Courtyard''], items = [''Sword''],
                             locked = False, dark = False\<rparr>),
          [(Move East, Some True), (Take ''Rusty Key'', Some True), (Move West, Some True),
           (Move North, Some True), (Move West, Some True)])
   \<and> to_dict (\<lambda>visited. [''Entrance Hall'', ''Library'', ''Courtyard'', ''Armory''])
       \<lparr>name = Some ''Ada'', position = ''Armory'', inventory = [], health = 100,
        visited_rooms = {|''Armory'', ''Courtyard'', ''Library'', ''Entrance Hall''|},
        turns = 4\<rparr>
     = Inr \<lparr>d_name = ''Ada'', d_position = ''Armory'', d_inventory = [], d_health = 100,
            d_visited_rooms = [''Entrance Hall'', ''Library'', ''Courtyard'', ''Armory''],
            d_turns = 4\<rparr>
   \<and> run \<lparr>name = Some ''Bob'', position = ''Entrance Hall'', inventory = [], health = 100,
           visited_rooms = {|''Entrance Hall''|}, turns = 0\<rparr> initialize_game
       [Load \<lparr>d_name = ''Ada'', d_position = ''Armory'', d_inventory = [], d_health = 100,
              d_visited_rooms = [''Entrance Hall'', ''Library'', ''Courtyard'', ''Armory''],
              d_turns = 4\<rparr>]
     = Inr (\<lparr>name = Some ''Ada'', position = ''Armory'', inventory = [], health = 100,
              visited_rooms = {|''Armory'', ''Courtyard'', ''Library'', ''Entrance Hall''|},
              turns = 4\<rparr>,
            initialize_game,
            [(Load \<lparr>d_name = ''Ada'', d_position = ''Armory'', d_inventory = [], d_health = 100,
                    d_visited_rooms = [''Entrance Hall'', ''Library'', ''Courtyard'', ''Armory''],
                    d_turns = 4\<rparr>, None)])
   \<and> initialize_game ''Armory''
     = Some \<lparr>exits = [East \<mapsto> ''Courtyard''], items = [''Sword''], locked = True, dark = False\<rparr>
   \<and> pick_up_item
       \<lparr>name = Some ''Ada'', position = ''Armory'', inventory = [], health = 100,
        visited_rooms = {|''Armory'', ''Courtyard'', ''Library'', ''Entrance Hall''|},
        turns = 4\<rparr> initialize_game ''Sword''
     = Inr (\<lparr>name = Some ''Ada'', position = ''Armory'', inventory = [], health = 100,
              visited_rooms = {|''Armory'', ''Courtyard'', ''Library'', ''Entrance Hall''|},
              turns = 4\<rparr>, initialize_game, False, [ArmoryDoorLocked])"
  by (simp add: initialize_game_def handler_defs to_dict_def from_dict_def Player_web_def) auto

text \<open>
  Claim C10, as the two programs have it. In every state the console game reaches from
  its start by any sequence of commands, and in every state the web game reaches from
  its start by any sequence of handler actions without a load, a player standing in the
  Armory finds its locked flag cleared, and a Take never answers with the locked-Armory
  message.
\<close>

theorem C10_armory_open_inside:
  "(Player_web n = Some p0 \<and> list_all handler_action as \<longrightarrow>
      (\<exists>p rooms l. run p0 initialize_game as = Inr (p, rooms, l)
         \<and> (position p = ''Armory'' \<longrightarrow> (\<exists>a. rooms ''Armory'' = Some a \<and> \<not> locked a))
         \<and> (\<forall>i. \<exists>p' rooms' b ms. pick_up_item p rooms i = Inr (p', rooms', b, ms)
                  \<and> ArmoryDoorLocked \<notin> set ms)))
   \<and> (\<exists>q rooms2.
        ((\<exists>t. game_loop 0 (fst (initialize_game_cli n2)) (snd (initialize_game_cli n2)) cs
                = Awaiting t q rooms2)
         \<or> (\<exists>e. game_loop 0 (fst (initialize_game_cli n2)) (snd (initialize_game_cli n2)) cs
                = Returned e q rooms2))
        \<and> (position q = ''Armory'' \<longrightarrow> (\<exists>a. rooms2 ''Armory'' = Some a \<and> \<not> locked a))
        \<and> (\<forall>i. \<exists>q' rooms' b ms. pick_up_item q rooms2 i = Inr (q', rooms', b, ms)
                 \<and> ArmoryDoorLocked \<notin> set ms))"
proof -
  have web: "\<exists>p rooms l. run p0 initialize_game as = Inr (p, rooms, l)
         \<and> (position p = ''Armory'' \<longrightarrow> (\<exists>a. rooms ''Armory'' = Some a \<and> \<not> locked a))
         \<and> (\<forall>i. \<exists>p' rooms' b ms. pick_up_item p rooms i = Inr (p', rooms', b, ms)
                  \<and> ArmoryDoorLocked \<notin> set ms)"
    if start: "Player_web n = Some p0" and free: "list_all handler_action as"
  proof -
    from run_inv [OF init_web_inv [OF start] free] obtain p rooms l
      where r: "run p0 initialize_game as = Inr (p, rooms, l)" and inv: "game_inv p rooms"
      by blast
    from inv_armory_open [OF inv] r show ?thesis by blast
  qed
  from game_loop_inv [OF init_cli_inv, of 0 n2 cs] obtain q rooms2
    where g: "(\<exists>t. game_loop 0 (fst (initialize_game_cli n2)) (snd (initialize_game_cli n2)) cs
                = Awaiting t q rooms2)
         \<or> (\<exists>e. game_loop 0 (fst (initialize_game_cli n2)) (snd (initialize_game_cli n2)) cs
                = Returned e q rooms2)"
      and inv: "game_inv q rooms2"
    by blast
  from inv_armory_open [OF inv] g web show ?thesis by blast
qed

theorem C10_armory_open_inside_witness:
  "Player_web ''Ada'' = Some \<lparr>name = Some ''Ada'', position = ''Entrance Hall'', inventory = [],
         health = 100, visited_rooms = {|''Entrance Hall''|}, turns = 0\<rparr>
   \<and> (\<exists>p rooms l.
        run \<lparr>name = Some ''Ada'', position = ''Entrance Hall'', inventory = [], health = 100,
             visited_rooms = {|''Entrance Hall''|}, turns = 0\<rparr> initialize_game
          [Move East, Take ''Rusty Key'', Move West, Move North, Move West] = Inr (p, rooms, l)
        \<and> position p = ''Armory''
        \<and> (\<exists>a. rooms ''Armory'' = Some a \<and> \<not> locked a)
        \<and> (\<exists>p' rooms' b ms. pick_up_item p rooms ''Sword'' = Inr (p', rooms', b, ms)
              \<and> ArmoryDoorLocked \<notin> set ms))
   \<and> (\<exists>t q rooms2.
        game_loop 0 (fst (initialize_game_cli ''Bob'')) (snd (initialize_game_cli ''Bob''))
          [CmdMove ''east'', CmdTake ''Rusty Key'', CmdMove ''west'', CmdMove ''north'',
           CmdMove ''west''] = Awaiting t q rooms2
        \<and> position q = ''Armory''
        \<and> (\<exists>a. rooms2 ''Armory'' = Some a \<and> \<not> locked a)
        \<and> (\<exists>q' rooms' b ms. pick_up_item q rooms2 ''Sword'' = Inr (q', rooms', b, ms)
              \<and> ArmoryDoorLocked \<notin> set ms))"
proof -
  let ?p0 = "\<lparr>name = Some ''Ada'', position = ''Entrance Hall'', inventory = [], health = 100,
             visited_rooms = {|''Entrance Hall''|}, turns = 0\<rparr>"
  let ?as = "[Move East, Take ''Rusty Key'', Move West, Move North, Move West]"
  let ?cs = "[CmdMove ''east'', CmdTake ''Rusty Key'', CmdMove ''west'', CmdMove ''north'',
           CmdMove ''west'']"
  note inst = C10_armory_open_inside [of "''Ada''" ?p0 ?as "''Bob''" ?cs]
  have start: "Player_web ''Ada'' = Some ?p0" "list_all handler_action ?as"
    by (simp_all add: Player_web_def)
  from inst start
  obtain p rooms l where r: "run ?p0 initialize_game ?as = Inr (p, rooms, l)"
    and a: "position p = ''Armory'' \<longrightarrow> (\<exists>a. rooms ''Armory'' = Some a \<and> \<not> locked a)"
    and t: "\<forall>i. \<exists>p' rooms' b ms. pick_up_item p rooms i = Inr (p', rooms', b, ms)
                  \<and> ArmoryDoorLocked \<notin> set ms"
    by blast
  have pos: "position p = ''Armory''"
    using r by (auto simp: handler_defs initialize_game_def)
  from inst obtain q rooms2
    where g: "(\<exists>t. game_loop 0 (fst (initialize_game_cli ''Bob'')) (snd (initialize_game_cli ''Bob'')) ?cs
                = Awaiting t q rooms2)
         \<or> (\<exists>e. game_loop 0 (fst (initialize_game_cli ''Bob'')) (snd (initialize_game_cli ''Bob'')) ?cs
                = Returned e q rooms2)"
      and a2: "position q = ''Armory'' \<longrightarrow> (\<exists>a. rooms2 ''Armory'' = Some a \<and> \<not> locked a)"
      and t2: "\<forall>i. \<exists>q' rooms' b ms. pick_up_item q rooms2 i = Inr (q', rooms', b, ms)
                  \<and> ArmoryDoorLocked \<notin> set ms"
    by blast
  have cli: "(\<exists>t. game_loop 0 (fst (initialize_game_cli ''Bob'')) (snd (initialize_game_cli ''Bob'')) ?cs
                = Awaiting t q rooms2) \<and> position q = ''Armory''"
    using g by (auto simp: handler_defs start_defs)
  from r a t pos a2 t2 cli start show ?thesis by blast
qed

end
